theory Spec2Isabelle
  imports Main "HOL-Library.Code_Target_Nat"
begin

section \<open>The semantic-version engine of the repository\<close>

text \<open>
  A shallow embedding of the SemVer module bundled in
  \<^verbatim>\<open>deno_std@1.150.0/fs/walk.ts.js\<close> (the second document of that file, from line 142 on):
  the version grammar, the \<^verbatim>\<open>SemVer\<close> class, comparators, ranges and the query functions.

  Conventions of the embedding.
  \<^item> A JavaScript string is a \<open>string\<close>; the text is taken to be ASCII, so a character is
    one code unit and \<^verbatim>\<open>\s\<close> is tab, line feed, vertical tab, form feed, carriage return
    and space.
  \<^item> A JavaScript number that holds a non-negative integer is a \<open>nat\<close>. Where the source
    converts a digit string to a number (\<^verbatim>\<open>+id\<close>) the value is rounded to the nearest
    double, ties to even (\<open>toDouble\<close>); strings are at most 256 characters long, so the
    value never overflows the exponent range of a double.
  \<^item> A \<^verbatim>\<open>throw\<close> is the left summand of \<open>error + 'a\<close>; \<^verbatim>\<open>null\<close> results are \<open>None\<close>.
  \<^item> Each regular expression of the source is a hand-written matcher that returns the
    capture groups the source reads. The expressions are anchored and their alternatives
    start with different characters, so the first match the backtracking engine finds is
    the one the greedy left-to-right matcher finds.
\<close>

subsection \<open>Characters, digits and numbers\<close>

definition MAX_LENGTH :: nat where
  "MAX_LENGTH = 256"

definition MAX_SAFE_INTEGER :: nat where
  "MAX_SAFE_INTEGER = 9007199254740991"

definition code :: "char \<Rightarrow> nat" where
  "code c = of_char c"

definition isDigit :: "char \<Rightarrow> bool" where
  "isDigit c = (48 \<le> code c \<and> code c \<le> 57)"

definition isLetter :: "char \<Rightarrow> bool" where
  "isLetter c = ((65 \<le> code c \<and> code c \<le> 90) \<or> (97 \<le> code c \<and> code c \<le> 122))"

text \<open>The class \<^verbatim>\<open>[0-9A-Za-z-]\<close> of the identifier grammars.\<close>

definition isIdChar :: "char \<Rightarrow> bool" where
  "isIdChar c = (isDigit c \<or> isLetter c \<or> c = CHR ''-'')"

text \<open>The class \<^verbatim>\<open>\s\<close> on ASCII text.\<close>

definition isSpace :: "char \<Rightarrow> bool" where
  "isSpace c = (code c = 9 \<or> code c = 10 \<or> code c = 11 \<or> code c = 12 \<or> code c = 13 \<or> code c = 32)"

definition digitVal :: "char \<Rightarrow> nat" where
  "digitVal c = code c - 48"

definition digitsVal :: "string \<Rightarrow> nat" where
  "digitsVal s = foldl (\<lambda>a c. 10 * a + digitVal c) 0 s"

definition digitChar :: "nat \<Rightarrow> char" where
  "digitChar d = char_of (48 + d)"

text \<open>Number to string, for an integer below \<open>10^21\<close>: its decimal digits.\<close>

fun dec :: "nat \<Rightarrow> string" where
  "dec n = (if n < 10 then [digitChar n] else dec (n div 10) @ [digitChar (n mod 10)])"

declare dec.simps [simp del]

fun nbits :: "nat \<Rightarrow> nat" where
  "nbits n = (if n = 0 then 0 else Suc (nbits (n div 2)))"

declare nbits.simps [simp del]

text \<open>
  The double nearest to a natural number (round to nearest, ties to even, 53 significant
  bits). Below \<open>2^53\<close> every natural number is a double.
\<close>

definition toDouble :: "nat \<Rightarrow> nat" where
  "toDouble n =
     (if n < 2 ^ 53 then n
      else
        let e = nbits n - 53;
            q = n div 2 ^ e;
            r = n mod 2 ^ e;
            h = 2 ^ (e - 1)
        in if r < h \<or> (r = h \<and> even q) then q * 2 ^ e else (q + 1) * 2 ^ e)"

text \<open>\<^verbatim>\<open>+s\<close> for a string of digits, and \<^verbatim>\<open>x++\<close> / \<^verbatim>\<open>+s + 1\<close> on a number.\<close>

definition toNumber :: "string \<Rightarrow> nat" where
  "toNumber s = toDouble (digitsVal s)"

definition plus1 :: "nat \<Rightarrow> nat" where
  "plus1 n = toDouble (n + 1)"

text \<open>\<^verbatim>\<open>/^[0-9]+$/.test(s)\<close>\<close>

definition allDigits :: "string \<Rightarrow> bool" where
  "allDigits s = (s \<noteq> [] \<and> list_all isDigit s)"

text \<open>\<^verbatim>\<open>a < b\<close> on two strings: by code units, a proper prefix first.\<close>

fun strLess :: "string \<Rightarrow> string \<Rightarrow> bool" where
  "strLess [] [] = False"
| "strLess [] (y # ys) = True"
| "strLess (x # xs) [] = False"
| "strLess (x # xs) (y # ys) =
     (if code x < code y then True else if code y < code x then False else strLess xs ys)"

subsection \<open>String operations of the runtime\<close>

definition trim :: "string \<Rightarrow> string" where
  "trim s = rev (dropWhile isSpace (rev (dropWhile isSpace s)))"

text \<open>\<^verbatim>\<open>s.split(c)\<close> for a one-character separator: always at least one piece.\<close>

fun splitOn :: "char \<Rightarrow> string \<Rightarrow> string list" where
  "splitOn c [] = [[]]"
| "splitOn c (x # xs) =
     (if x = c then [] # splitOn c xs
      else (case splitOn c xs of [] \<Rightarrow> [[x]] | p # ps \<Rightarrow> (x # p) # ps))"

text \<open>\<^verbatim>\<open>xs.join(sep)\<close>\<close>

fun join :: "string \<Rightarrow> string list \<Rightarrow> string" where
  "join sep [] = []"
| "join sep [x] = x"
| "join sep (x # y # ys) = x @ sep @ join sep (y # ys)"

text \<open>
  \<^verbatim>\<open>s.split(/\s+/)\<close>: the pieces between maximal runs of white space; a run at either end
  leaves an empty piece there.
\<close>

fun splitWs :: "string \<Rightarrow> string list" where
  "splitWs [] = [[]]"
| "splitWs (x # xs) =
     (if isSpace x then (if xs \<noteq> [] \<and> isSpace (hd xs) then splitWs xs else [] # splitWs xs)
      else (case splitWs xs of [] \<Rightarrow> [[x]] | p # ps \<Rightarrow> (x # p) # ps))"

subsection \<open>The version grammar\<close>

text \<open>
  \<^verbatim>\<open>NUMERICIDENTIFIER = 0|[1-9]\d*\<close> at the front of a string: the identifier and the rest.
  What follows a numeric identifier in every pattern is a dot, a hyphen, a plus, white
  space or the end, so giving digits back never helps and the longest run is taken.
\<close>

definition takeNid :: "string \<Rightarrow> (string \<times> string) option" where
  "takeNid s =
     (case s of
        [] \<Rightarrow> None
      | c # cs \<Rightarrow>
          if c = CHR ''0'' then Some ([c], cs)
          else if isDigit c then Some (c # takeWhile isDigit cs, dropWhile isDigit cs)
          else None)"

definition expect :: "char \<Rightarrow> string \<Rightarrow> string option" where
  "expect c s = (case s of [] \<Rightarrow> None | x # xs \<Rightarrow> if x = c then Some xs else None)"

text \<open>\<^verbatim>\<open>MAINVERSION = (nid)\.(nid)\.(nid)\<close> at the front: the three captures and the rest.\<close>

definition matchMain :: "string \<Rightarrow> (string \<times> string \<times> string \<times> string) option" where
  "matchMain s =
     Option.bind (takeNid s) (\<lambda>(M, r1).
     Option.bind (expect CHR ''.'' r1) (\<lambda>r1'.
     Option.bind (takeNid r1') (\<lambda>(m, r2).
     Option.bind (expect CHR ''.'' r2) (\<lambda>r2'.
     Option.bind (takeNid r2') (\<lambda>(p, r3). Some (M, m, p, r3))))))"

text \<open>
  \<^verbatim>\<open>PRERELEASEIDENTIFIER = (?:0|[1-9]\d*|\d*[a-zA-Z-][a-zA-Z0-9-]*)\<close> against a whole
  identifier: a non-empty word over \<^verbatim>\<open>[0-9A-Za-z-]\<close> that, when it is all digits, has no
  leading zero. \<^verbatim>\<open>BUILDIDENTIFIER = [0-9A-Za-z-]+\<close>.
\<close>

definition isPrereleaseId :: "string \<Rightarrow> bool" where
  "isPrereleaseId x =
     (x \<noteq> [] \<and> list_all isIdChar x \<and>
      (if list_all isDigit x then x = ''0'' \<or> hd x \<noteq> CHR ''0'' else True))"

definition isBuildId :: "string \<Rightarrow> bool" where
  "isBuildId x = (x \<noteq> [] \<and> list_all isIdChar x)"

definition isIdDot :: "char \<Rightarrow> bool" where
  "isIdDot c = (isIdChar c \<or> c = CHR ''.'')"

text \<open>
  \<^verbatim>\<open>PRERELEASE?\<close> and \<^verbatim>\<open>BUILD?\<close> at the front: the capture (if the section is there) and the
  rest. Nothing that can follow either section starts with a hyphen, a plus, a dot or an
  identifier character, so a section that starts must match the whole run of identifier
  characters and dots, or the pattern fails.
\<close>

definition matchPre :: "string \<Rightarrow> (string option \<times> string) option" where
  "matchPre s =
     (case s of
        [] \<Rightarrow> Some (None, s)
      | c # t \<Rightarrow>
          if c = CHR ''-'' then
            (let pr = takeWhile isIdDot t in
             if list_all isPrereleaseId (splitOn CHR ''.'' pr)
             then Some (Some pr, dropWhile isIdDot t) else None)
          else Some (None, s))"

definition matchBuild :: "string \<Rightarrow> (string option \<times> string) option" where
  "matchBuild s =
     (case s of
        [] \<Rightarrow> Some (None, s)
      | c # t \<Rightarrow>
          if c = CHR ''+'' then
            (let b = takeWhile isIdDot t in
             if list_all isBuildId (splitOn CHR ''.'' b)
             then Some (Some b, dropWhile isIdDot t) else None)
          else Some (None, s))"

text \<open>
  \<^verbatim>\<open>FULLPLAIN = v?MAINVERSION PRERELEASE? BUILD?\<close> at the front: the captures
  (major, minor, patch, prerelease, build) and the rest.
\<close>

type_synonym captures = "string \<times> string \<times> string \<times> string option \<times> string option"

definition matchFULLPLAIN :: "string \<Rightarrow> (captures \<times> string) option" where
  "matchFULLPLAIN s =
     Option.bind (matchMain (case s of [] \<Rightarrow> s | c # t \<Rightarrow> if c = CHR ''v'' then t else s))
       (\<lambda>(M, m, p, r3).
     Option.bind (matchPre r3) (\<lambda>(pr, r4).
     Option.bind (matchBuild r4) (\<lambda>(b, r5). Some ((M, m, p, pr, b), r5))))"

text \<open>\<^verbatim>\<open>FULL = ^FULLPLAIN$\<close>\<close>

definition matchFULL :: "string \<Rightarrow> captures option" where
  "matchFULL s =
     (case matchFULLPLAIN s of
        None \<Rightarrow> None
      | Some (caps, rest) \<Rightarrow> if rest = [] then Some caps else None)"

subsection \<open>The class SemVer\<close>

text \<open>
  A prerelease identifier is a number or a string, as the constructor leaves it. The
  \<^verbatim>\<open>options\<close> field is left out: the methods of \<^verbatim>\<open>SemVer\<close> only hand it on to the
  constructor, which does not read it.
\<close>

datatype ident = Num nat | Str string

record semver =
  raw :: string
  major :: nat
  minor :: nat
  patch :: nat
  version :: string
  build :: "string list"
  prerelease :: "ident list"

text \<open>
  \<open>TypeError\<close> and \<open>Error\<close> are the two exceptions the module throws itself;
  \<open>NullDereference\<close> is the \<^verbatim>\<open>TypeError\<close> of the runtime for a property read on
  \<^verbatim>\<open>null\<close>, kept apart so that it can be told from a rejected version or range.
\<close>

datatype error = TypeError | Error | NullDereference

text \<open>
  An argument where the source takes \<^verbatim>\<open>string | SemVer\<close>: \<open>IOther\<close> is any value that
  is neither (\<^verbatim>\<open>null\<close>, \<^verbatim>\<open>undefined\<close>, a number, a boolean).
\<close>

datatype input = IString string | ISemVer semver | IOther

definition identStr :: "ident \<Rightarrow> string" where
  "identStr a = (case a of Num n \<Rightarrow> dec n | Str s \<Rightarrow> s)"

definition formatStr :: "semver \<Rightarrow> string" where
  "formatStr v =
     dec (major v) @ ''.'' @ dec (minor v) @ ''.'' @ dec (patch v) @
     (if prerelease v \<noteq> [] then ''-'' @ join ''.'' (map identStr (prerelease v)) else [])"

definition format :: "semver \<Rightarrow> semver" where
  "format v = v\<lparr>version := formatStr v\<rparr>"

text \<open>The callback of the constructor that turns the numeric prerelease identifiers into numbers.\<close>

definition numberify :: "string \<Rightarrow> ident" where
  "numberify id' =
     (if allDigits id' then
        (let num = toNumber id' in if num < MAX_SAFE_INTEGER then Num num else Str id')
      else Str id')"

definition SemVer_ofString :: "string \<Rightarrow> error + semver" where
  "SemVer_ofString s =
     (if length s > MAX_LENGTH then Inl TypeError
      else
        (case matchFULL (trim s) of
           None \<Rightarrow> Inl TypeError
         | Some (M, m, p, pr, b) \<Rightarrow>
             if toNumber M > MAX_SAFE_INTEGER then Inl TypeError
             else if toNumber m > MAX_SAFE_INTEGER then Inl TypeError
             else if toNumber p > MAX_SAFE_INTEGER then Inl TypeError
             else
               Inr (format
                 \<lparr>raw = s, major = toNumber M, minor = toNumber m, patch = toNumber p,
                  version = [],
                  build = (case b of None \<Rightarrow> [] | Some t \<Rightarrow> splitOn CHR ''.'' t),
                  prerelease =
                    (case pr of None \<Rightarrow> [] | Some t \<Rightarrow> map numberify (splitOn CHR ''.'' t))\<rparr>)))"

text \<open>\<^verbatim>\<open>new SemVer(version, options)\<close>: an instance is read again from its \<^verbatim>\<open>version\<close> string.\<close>

definition SemVer_new :: "input \<Rightarrow> error + semver" where
  "SemVer_new inp =
     (case inp of
        ISemVer v \<Rightarrow> SemVer_ofString (version v)
      | IString s \<Rightarrow> SemVer_ofString s
      | IOther \<Rightarrow> Inl TypeError)"

text \<open>
  \<^verbatim>\<open>compareIdentifiers(a, b)\<close>. \<^verbatim>\<open>numeric.test\<close> holds of every number the module stores
  (an integer up to \<open>2^53\<close>, printed in digits) and of the strings of digits.
\<close>

definition numeric :: "ident \<Rightarrow> bool" where
  "numeric a = (case a of Num n \<Rightarrow> True | Str s \<Rightarrow> allDigits s)"

definition numberOf :: "ident \<Rightarrow> nat" where
  "numberOf a = (case a of Num n \<Rightarrow> n | Str s \<Rightarrow> toNumber s)"

definition compareIdentifiers :: "ident \<Rightarrow> ident \<Rightarrow> int" where
  "compareIdentifiers a b =
     (let anum = numeric a; bnum = numeric b in
      if anum \<and> bnum then
        (if numberOf a = numberOf b then 0 else if numberOf a < numberOf b then - 1 else 1)
      else if a = b then 0
      else if anum \<and> \<not> bnum then - 1
      else if bnum \<and> \<not> anum then 1
      else if strLess (identStr a) (identStr b) then - 1 else 1)"

text \<open>\<^verbatim>\<open>x || y\<close> on two comparison results.\<close>

definition orElse :: "int \<Rightarrow> int \<Rightarrow> int" where
  "orElse x y = (if x \<noteq> 0 then x else y)"

definition compareMain :: "semver \<Rightarrow> semver \<Rightarrow> int" where
  "compareMain v other =
     orElse (compareIdentifiers (Num (major v)) (Num (major other)))
       (orElse (compareIdentifiers (Num (minor v)) (Num (minor other)))
          (compareIdentifiers (Num (patch v)) (Num (patch other))))"

text \<open>The \<^verbatim>\<open>do ... while (++i)\<close> loop of \<^verbatim>\<open>comparePre\<close>, over the two lists from index \<open>i\<close> on.\<close>

fun comparePreLoop :: "ident list \<Rightarrow> ident list \<Rightarrow> int" where
  "comparePreLoop [] [] = 0"
| "comparePreLoop (a # as) [] = 1"
| "comparePreLoop [] (b # bs) = - 1"
| "comparePreLoop (a # as) (b # bs) =
     (if a = b then comparePreLoop as bs else compareIdentifiers a b)"

definition comparePre :: "semver \<Rightarrow> semver \<Rightarrow> int" where
  "comparePre v other =
     (if prerelease v \<noteq> [] \<and> prerelease other = [] then - 1
      else if prerelease v = [] \<and> prerelease other \<noteq> [] then 1
      else if prerelease v = [] \<and> prerelease other = [] then 0
      else comparePreLoop (prerelease v) (prerelease other))"

text \<open>\<^verbatim>\<open>SemVer.compare(other)\<close> for an instance \<^verbatim>\<open>other\<close>, and for any argument.\<close>

definition compareSV :: "semver \<Rightarrow> semver \<Rightarrow> int" where
  "compareSV v other = orElse (compareMain v other) (comparePre v other)"

definition SemVer_compare :: "semver \<Rightarrow> input \<Rightarrow> error + int" where
  "SemVer_compare v other =
     (case other of
        ISemVer w \<Rightarrow> Inr (compareSV v w)
      | _ \<Rightarrow> (case SemVer_new other of Inl e \<Rightarrow> Inl e | Inr w \<Rightarrow> Inr (compareSV v w)))"

text \<open>The exported \<^verbatim>\<open>compare(v1, v2)\<close> and the predicates over it.\<close>

definition compare :: "input \<Rightarrow> input \<Rightarrow> error + int" where
  "compare v1 v2 =
     (case SemVer_new v1 of
        Inl e \<Rightarrow> Inl e
      | Inr a \<Rightarrow> (case SemVer_new v2 of Inl e \<Rightarrow> Inl e | Inr b \<Rightarrow> Inr (compareSV a b)))"

definition gt :: "input \<Rightarrow> input \<Rightarrow> error + bool" where
  "gt v1 v2 = map_sum id (\<lambda>c. c > 0) (compare v1 v2)"

definition lt :: "input \<Rightarrow> input \<Rightarrow> error + bool" where
  "lt v1 v2 = map_sum id (\<lambda>c. c < 0) (compare v1 v2)"

definition eq :: "input \<Rightarrow> input \<Rightarrow> error + bool" where
  "eq v1 v2 = map_sum id (\<lambda>c. c = 0) (compare v1 v2)"

definition neq :: "input \<Rightarrow> input \<Rightarrow> error + bool" where
  "neq v1 v2 = map_sum id (\<lambda>c. c \<noteq> 0) (compare v1 v2)"

definition gte :: "input \<Rightarrow> input \<Rightarrow> error + bool" where
  "gte v1 v2 = map_sum id (\<lambda>c. c \<ge> 0) (compare v1 v2)"

definition lte :: "input \<Rightarrow> input \<Rightarrow> error + bool" where
  "lte v1 v2 = map_sum id (\<lambda>c. c \<le> 0) (compare v1 v2)"

subsection \<open>Incrementing a version\<close>

text \<open>
  \<^verbatim>\<open>isNaN(x)\<close> for a string: whether the text (trimmed) is no numeric literal of the
  language. The literals are the empty text, the unsigned binary, octal and hexadecimal
  integers, and the signed decimals \<^verbatim>\<open>Infinity\<close>, \<^verbatim>\<open>d+\<close>, \<^verbatim>\<open>d*.d*\<close> with a digit, each of
  the last two with an optional exponent.
\<close>

definition isExponentOpt :: "string \<Rightarrow> bool" where
  "isExponentOpt s =
     (case s of
        [] \<Rightarrow> True
      | c # t \<Rightarrow>
          (c = CHR ''e'' \<or> c = CHR ''E'') \<and>
          allDigits (case t of [] \<Rightarrow> t | d # u \<Rightarrow> if d = CHR ''+'' \<or> d = CHR ''-'' then u else t))"

definition isUnsignedDecimal :: "string \<Rightarrow> bool" where
  "isUnsignedDecimal s =
     (s = ''Infinity'' \<or>
      (let i = takeWhile isDigit s; r = dropWhile isDigit s in
       case r of
         [] \<Rightarrow> i \<noteq> []
       | c # t \<Rightarrow>
           if c = CHR ''.'' then
             (i \<noteq> [] \<or> takeWhile isDigit t \<noteq> []) \<and> isExponentOpt (dropWhile isDigit t)
           else i \<noteq> [] \<and> isExponentOpt r))"

definition isHexDigit :: "char \<Rightarrow> bool" where
  "isHexDigit c =
     (isDigit c \<or> (65 \<le> code c \<and> code c \<le> 70) \<or> (97 \<le> code c \<and> code c \<le> 102))"

definition isNonDecimal :: "string \<Rightarrow> bool" where
  "isNonDecimal s =
     (case s of
        a # b # t \<Rightarrow>
          a = CHR ''0'' \<and> t \<noteq> [] \<and>
          (((b = CHR ''x'' \<or> b = CHR ''X'') \<and> list_all isHexDigit t) \<or>
           ((b = CHR ''o'' \<or> b = CHR ''O'') \<and> list_all (\<lambda>c. 48 \<le> code c \<and> code c \<le> 55) t) \<or>
           ((b = CHR ''b'' \<or> b = CHR ''B'') \<and> list_all (\<lambda>c. c = CHR ''0'' \<or> c = CHR ''1'') t))
      | _ \<Rightarrow> False)"

definition isNumericString :: "string \<Rightarrow> bool" where
  "isNumericString s =
     (let t = trim s in
      t = [] \<or> isNonDecimal t \<or>
      isUnsignedDecimal
        (case t of [] \<Rightarrow> t | c # u \<Rightarrow> if c = CHR ''+'' \<or> c = CHR ''-'' then u else t))"

text \<open>\<^verbatim>\<open>isNaN(this.prerelease[1])\<close>: \<open>None\<close> is \<^verbatim>\<open>undefined\<close>, the element past the end.\<close>

definition isNaN :: "ident option \<Rightarrow> bool" where
  "isNaN x =
     (case x of None \<Rightarrow> True | Some (Num n) \<Rightarrow> False | Some (Str s) \<Rightarrow> \<not> isNumericString s)"

text \<open>
  The \<^verbatim>\<open>while (--i >= 0)\<close> loop of case \<^verbatim>\<open>"pre"\<close>, over the reversed list: the last number is
  incremented; \<open>None\<close> when there is no number (the source then appends \<open>0\<close>).
\<close>

fun incLast :: "ident list \<Rightarrow> ident list option" where
  "incLast [] = None"
| "incLast (Num n # xs) = Some (Num (plus1 n) # xs)"
| "incLast (Str s # xs) = map_option ((#) (Str s)) (incLast xs)"

definition bumpPre :: "ident list \<Rightarrow> ident list" where
  "bumpPre pre =
     (if pre = [] then [Num 0]
      else (case incLast (rev pre) of Some r \<Rightarrow> rev r | None \<Rightarrow> pre @ [Num 0]))"

text \<open>The end of \<^verbatim>\<open>inc\<close>: \<^verbatim>\<open>this.format(); this.raw = this.version\<close>.\<close>

definition finish :: "semver \<Rightarrow> semver" where
  "finish v = (format v)\<lparr>raw := formatStr v\<rparr>"

text \<open>\<open>identifier\<close> is \<open>None\<close> for \<^verbatim>\<open>undefined\<close>; the empty string is as falsy.\<close>

definition incPre :: "semver \<Rightarrow> string option \<Rightarrow> semver" where
  "incPre v identifier =
     (let pre = bumpPre (prerelease v) in
      finish (v\<lparr>prerelease :=
        (case identifier of
           None \<Rightarrow> pre
         | Some i \<Rightarrow>
             if i = [] then pre
             else if hd pre = Str i then
               (if isNaN (if length pre > 1 then Some (pre ! 1) else None)
                then [Str i, Num 0] else pre)
             else [Str i, Num 0])\<rparr>))"

definition incPatch :: "semver \<Rightarrow> semver" where
  "incPatch v =
     finish (v\<lparr>patch := (if prerelease v = [] then plus1 (patch v) else patch v),
               prerelease := []\<rparr>)"

text \<open>\<^verbatim>\<open>SemVer.inc(release, identifier)\<close>; the cases in the order of the \<^verbatim>\<open>switch\<close>.\<close>

definition SemVer_inc :: "semver \<Rightarrow> string \<Rightarrow> string option \<Rightarrow> error + semver" where
  "SemVer_inc v release identifier =
     (if release = ''premajor'' then
        Inr (finish (incPre (v\<lparr>prerelease := [], patch := 0, minor := 0,
                                major := plus1 (major v)\<rparr>) identifier))
      else if release = ''preminor'' then
        Inr (finish (incPre (v\<lparr>prerelease := [], patch := 0,
                                minor := plus1 (minor v)\<rparr>) identifier))
      else if release = ''prepatch'' then
        Inr (finish (incPre (incPatch (v\<lparr>prerelease := []\<rparr>)) identifier))
      else if release = ''prerelease'' then
        Inr (finish (incPre (if prerelease v = [] then incPatch v else v) identifier))
      else if release = ''major'' then
        Inr (finish (v\<lparr>major :=
                         (if minor v \<noteq> 0 \<or> patch v \<noteq> 0 \<or> prerelease v = []
                          then plus1 (major v) else major v),
                       minor := 0, patch := 0, prerelease := []\<rparr>))
      else if release = ''minor'' then
        Inr (finish (v\<lparr>minor :=
                         (if patch v \<noteq> 0 \<or> prerelease v = []
                          then plus1 (minor v) else minor v),
                       patch := 0, prerelease := []\<rparr>))
      else if release = ''patch'' then Inr (incPatch v)
      else if release = ''pre'' then Inr (incPre v identifier)
      else Inl Error)"

text \<open>The exported \<^verbatim>\<open>inc(version, release, options, identifier)\<close>: every throw becomes \<^verbatim>\<open>null\<close>.\<close>

definition inc :: "input \<Rightarrow> string \<Rightarrow> string option \<Rightarrow> string option" where
  "inc version' release identifier =
     (case SemVer_new version' of
        Inl e \<Rightarrow> None
      | Inr v \<Rightarrow>
          (case SemVer_inc v release identifier of
             Inl e \<Rightarrow> None
           | Inr w \<Rightarrow> Some (version w)))"

subsection \<open>parse and diff\<close>

text \<open>
  \<^verbatim>\<open>parse(version, options)\<close>. The pattern is tested on the text as given (not trimmed);
  the \<^verbatim>\<open>try\<close> around the constructor turns its throw into \<^verbatim>\<open>null\<close>.
\<close>

definition parse :: "input \<Rightarrow> semver option" where
  "parse version' =
     (case version' of
        ISemVer v \<Rightarrow> Some v
      | IOther \<Rightarrow> None
      | IString s \<Rightarrow>
          if length s > MAX_LENGTH then None
          else if matchFULL s = None then None
          else (case SemVer_new (IString s) of Inl e \<Rightarrow> None | Inr v \<Rightarrow> Some v))"

text \<open>
  \<^verbatim>\<open>diff(version1, version2)\<close>. The \<^verbatim>\<open>for (const key in v1)\<close> loop meets the fields in the
  order of their declaration, so \<^verbatim>\<open>major\<close>, \<^verbatim>\<open>minor\<close>, \<^verbatim>\<open>patch\<close> are compared in this order.
\<close>

definition diff :: "input \<Rightarrow> input \<Rightarrow> error + string option" where
  "diff version1 version2 =
     (case eq version1 version2 of
        Inl e \<Rightarrow> Inl e
      | Inr True \<Rightarrow> Inr None
      | Inr False \<Rightarrow>
          (case (parse version1, parse version2) of
             (Some v1, Some v2) \<Rightarrow>
               (let pre = (prerelease v1 \<noteq> [] \<or> prerelease v2 \<noteq> []);
                    prefix = (if pre then ''pre'' else []);
                    defaultResult = (if pre then Some ''prerelease'' else None)
                in if major v1 \<noteq> major v2 then Inr (Some (prefix @ ''major''))
                   else if minor v1 \<noteq> minor v2 then Inr (Some (prefix @ ''minor''))
                   else if patch v1 \<noteq> patch v2 then Inr (Some (prefix @ ''patch''))
                   else Inr defaultResult)
           | _ \<Rightarrow> Inr None))"

subsection \<open>The range grammar\<close>

text \<open>\<^verbatim>\<open>GTLT = ((?:<|>)?=?)\<close> at the front: the capture and the rest.\<close>

definition takeGTLT :: "string \<Rightarrow> string \<times> string" where
  "takeGTLT s =
     (let (a, r) =
        (case s of
           [] \<Rightarrow> ([], s)
         | c # t \<Rightarrow> if c = CHR ''<'' \<or> c = CHR ''>'' then ([c], t) else ([], s))
      in case r of
           [] \<Rightarrow> (a, r)
         | c # t \<Rightarrow> if c = CHR ''='' then (a @ [c], t) else (a, r))"

text \<open>\<^verbatim>\<open>XRANGEIDENTIFIER = 0|[1-9]\d*|x|X|\*\<close> at the front.\<close>

definition takeXrId :: "string \<Rightarrow> (string \<times> string) option" where
  "takeXrId s =
     (case s of
        [] \<Rightarrow> None
      | c # cs \<Rightarrow>
          if c = CHR ''x'' \<or> c = CHR ''X'' \<or> c = CHR ''*'' then Some ([c], cs) else takeNid s)"

text \<open>
  \<^verbatim>\<open>XRANGEPLAIN = [v=\s]*(xr)(?:\.(xr)(?:\.(xr)(?:PRERELEASE)?BUILD?)?)?\<close> at the front: the
  captures (major, minor, patch, prerelease, build; \<open>None\<close> for a group that took no part)
  and the rest. In each pattern that uses it the next thing is white space or the end, so
  a dot, hyphen or plus after an identifier has to open the next group.
\<close>

type_synonym xcaptures =
  "string \<times> string option \<times> string option \<times> string option \<times> string option"

definition matchXRANGEPLAIN :: "string \<Rightarrow> (xcaptures \<times> string) option" where
  "matchXRANGEPLAIN s =
     Option.bind (takeXrId (dropWhile (\<lambda>c. c = CHR ''v'' \<or> c = CHR ''='' \<or> isSpace c) s))
       (\<lambda>(M, r1).
     case expect CHR ''.'' r1 of
       None \<Rightarrow> Some ((M, None, None, None, None), r1)
     | Some r1' \<Rightarrow>
         Option.bind (takeXrId r1') (\<lambda>(m, r2).
         case expect CHR ''.'' r2 of
           None \<Rightarrow> Some ((M, Some m, None, None, None), r2)
         | Some r2' \<Rightarrow>
             Option.bind (takeXrId r2') (\<lambda>(p, r3).
             Option.bind (matchPre r3) (\<lambda>(pr, r4).
             Option.bind (matchBuild r4) (\<lambda>(b, r5).
               Some ((M, Some m, Some p, pr, b), r5))))))"

text \<open>\<^verbatim>\<open>CARET = ^(?:\^)XRANGEPLAIN$\<close> and \<^verbatim>\<open>TILDE = ^(?:~>?)XRANGEPLAIN$\<close>\<close>

definition matchCARET :: "string \<Rightarrow> xcaptures option" where
  "matchCARET s =
     Option.bind (expect CHR ''^'' s) (\<lambda>t.
     case matchXRANGEPLAIN t of
       None \<Rightarrow> None
     | Some (caps, rest) \<Rightarrow> if rest = [] then Some caps else None)"

definition matchTILDE :: "string \<Rightarrow> xcaptures option" where
  "matchTILDE s =
     Option.bind (expect CHR ''~'' s) (\<lambda>t.
     case matchXRANGEPLAIN (case expect CHR ''>'' t of None \<Rightarrow> t | Some u \<Rightarrow> u) of
       None \<Rightarrow> None
     | Some (caps, rest) \<Rightarrow> if rest = [] then Some caps else None)"

text \<open>\<^verbatim>\<open>XRANGE = ^GTLT\s*XRANGEPLAIN$\<close>: the operator and the captures.\<close>

definition matchXRANGE :: "string \<Rightarrow> (string \<times> xcaptures) option" where
  "matchXRANGE s =
     (let (gtlt, r) = takeGTLT s in
      case matchXRANGEPLAIN r of
        None \<Rightarrow> None
      | Some (caps, rest) \<Rightarrow> if rest = [] then Some (gtlt, caps) else None)"

text \<open>
  \<^verbatim>\<open>COMPARATOR = ^GTLT\s*(FULLPLAIN)$|^$\<close>: groups 1 and 2, both \<open>None\<close> when the second
  alternative matched the empty string.
\<close>

definition matchCOMPARATOR :: "string \<Rightarrow> (string option \<times> string option) option" where
  "matchCOMPARATOR s =
     (let (gtlt, r) = takeGTLT s; t = dropWhile isSpace r in
      case matchFULLPLAIN t of
        Some (caps, []) \<Rightarrow> Some (Some gtlt, Some t)
      | _ \<Rightarrow> if s = [] then Some (None, None) else None)"

text \<open>
  \<^verbatim>\<open>HYPHENRANGE = ^\s*(XRANGEPLAIN)\s+-\s+(XRANGEPLAIN)\s*$\<close>: for each side the text of the
  group and its captures.
\<close>

definition matchHYPHENRANGE :: "string \<Rightarrow> ((string \<times> xcaptures) \<times> (string \<times> xcaptures)) option" where
  "matchHYPHENRANGE s =
     (let s1 = dropWhile isSpace s in
      case matchXRANGEPLAIN s1 of
        None \<Rightarrow> None
      | Some (fc, r1) \<Rightarrow>
          if r1 = [] \<or> \<not> isSpace (hd r1) then None
          else
            (case expect CHR ''-'' (dropWhile isSpace r1) of
               None \<Rightarrow> None
             | Some r3 \<Rightarrow>
                 if r3 = [] \<or> \<not> isSpace (hd r3) then None
                 else
                   (let r4 = dropWhile isSpace r3 in
                    case matchXRANGEPLAIN r4 of
                      None \<Rightarrow> None
                    | Some (tc, r5) \<Rightarrow>
                        if dropWhile isSpace r5 = []
                        then Some ((take (length s1 - length r1) s1, fc),
                                   (take (length r4 - length r5) r4, tc))
                        else None)))"

text \<open>
  \<^verbatim>\<open>STAR = (<|>)?=?\s*\*\<close> is not anchored: \<open>starAt\<close> matches it at the front and gives the
  rest, \<open>replaceStar\<close> removes its leftmost match.
\<close>

definition starAt :: "string \<Rightarrow> string option" where
  "starAt s = expect CHR ''*'' (dropWhile isSpace (snd (takeGTLT s)))"

fun replaceStar :: "string \<Rightarrow> string" where
  "replaceStar [] = []"
| "replaceStar (c # cs) =
     (case starAt (c # cs) of Some rest \<Rightarrow> rest | None \<Rightarrow> c # replaceStar cs)"

subsection \<open>Rewriting a range to comparators\<close>

definition isX :: "string option \<Rightarrow> bool" where
  "isX id' =
     (case id' of
        None \<Rightarrow> True
      | Some i \<Rightarrow> i = [] \<or> i = ''x'' \<or> i = ''X'' \<or> i = ''*'')"

text \<open>A capture inside a string concatenation.\<close>

definition strOf :: "string option \<Rightarrow> string" where
  "strOf x = (case x of None \<Rightarrow> ''undefined'' | Some s \<Rightarrow> s)"

text \<open>
  \<^verbatim>\<open>(+M + 1)\<close> inside a string concatenation. Up to \<open>2^53\<close> the runtime prints the decimal
  digits, as here. Above, the digits it prints can differ from the decimal expansion; the
  comparator built from such a token is rejected by the constructor either way, since
  every version field above \<^verbatim>\<open>MAX_SAFE_INTEGER\<close> is.
\<close>

definition succStr :: "string \<Rightarrow> string" where
  "succStr M = dec (plus1 (toNumber M))"

definition replaceCaret :: "string \<Rightarrow> string" where
  "replaceCaret tok =
     (case matchCARET tok of
        None \<Rightarrow> tok
      | Some (M, m, p, pr, b) \<Rightarrow>
          if isX (Some M) then []
          else if isX m then ''>='' @ M @ ''.0.0 <'' @ succStr M @ ''.0.0''
          else if isX p then
            (if M = ''0''
             then ''>='' @ M @ ''.'' @ strOf m @ ''.0 <'' @ M @ ''.'' @ succStr (strOf m) @ ''.0''
             else ''>='' @ M @ ''.'' @ strOf m @ ''.0 <'' @ succStr M @ ''.0.0'')
          else if pr \<noteq> None \<and> pr \<noteq> Some [] then
            (if M = ''0'' then
               (if m = Some ''0''
                then ''>='' @ M @ ''.'' @ strOf m @ ''.'' @ strOf p @ ''-'' @ strOf pr @
                     '' <'' @ M @ ''.'' @ strOf m @ ''.'' @ succStr (strOf p)
                else ''>='' @ M @ ''.'' @ strOf m @ ''.'' @ strOf p @ ''-'' @ strOf pr @
                     '' <'' @ M @ ''.'' @ succStr (strOf m) @ ''.0'')
             else ''>='' @ M @ ''.'' @ strOf m @ ''.'' @ strOf p @ ''-'' @ strOf pr @
                  '' <'' @ succStr M @ ''.0.0'')
          else
            (if M = ''0'' then
               (if m = Some ''0''
                then ''>='' @ M @ ''.'' @ strOf m @ ''.'' @ strOf p @
                     '' <'' @ M @ ''.'' @ strOf m @ ''.'' @ succStr (strOf p)
                else ''>='' @ M @ ''.'' @ strOf m @ ''.'' @ strOf p @
                     '' <'' @ M @ ''.'' @ succStr (strOf m) @ ''.0'')
             else ''>='' @ M @ ''.'' @ strOf m @ ''.'' @ strOf p @ '' <'' @ succStr M @ ''.0.0''))"

definition replaceCarets :: "string \<Rightarrow> string" where
  "replaceCarets tok = join '' '' (map replaceCaret (splitWs (trim tok)))"

definition replaceTilde :: "string \<Rightarrow> string" where
  "replaceTilde tok =
     (case matchTILDE tok of
        None \<Rightarrow> tok
      | Some (M, m, p, pr, b) \<Rightarrow>
          if isX (Some M) then []
          else if isX m then ''>='' @ M @ ''.0.0 <'' @ succStr M @ ''.0.0''
          else if isX p then
            ''>='' @ M @ ''.'' @ strOf m @ ''.0 <'' @ M @ ''.'' @ succStr (strOf m) @ ''.0''
          else if pr \<noteq> None \<and> pr \<noteq> Some [] then
            ''>='' @ M @ ''.'' @ strOf m @ ''.'' @ strOf p @ ''-'' @ strOf pr @
            '' <'' @ M @ ''.'' @ succStr (strOf m) @ ''.0''
          else
            ''>='' @ M @ ''.'' @ strOf m @ ''.'' @ strOf p @
            '' <'' @ M @ ''.'' @ succStr (strOf m) @ ''.0'')"

definition replaceTildes :: "string \<Rightarrow> string" where
  "replaceTildes tok = join '' '' (map replaceTilde (splitWs (trim tok)))"

definition replaceXRange :: "string \<Rightarrow> string" where
  "replaceXRange tok0 =
     (let tok = trim tok0 in
      case matchXRANGE tok of
        None \<Rightarrow> tok
      | Some (gtlt0, M, m, p, pr, b) \<Rightarrow>
          (let xM = isX (Some M);
               xm = (xM \<or> isX m);
               xp = (xm \<or> isX p);
               anyX = xp;
               gtlt = (if gtlt0 = ''='' \<and> anyX then [] else gtlt0)
           in if xM then (if gtlt = ''>'' \<or> gtlt = ''<'' then ''<0.0.0'' else ''*'')
              else if gtlt \<noteq> [] \<and> anyX then
                (let m0 = (if xm then ''0'' else strOf m) in
                 if gtlt = ''>'' then
                   (if xm then ''>='' @ succStr M @ ''.0.0''
                    else ''>='' @ M @ ''.'' @ succStr (strOf m) @ ''.0'')
                 else if gtlt = ''<='' then
                   (if xm then ''<'' @ succStr M @ ''.'' @ m0 @ ''.0''
                    else ''<'' @ M @ ''.'' @ succStr (strOf m) @ ''.0'')
                 else gtlt @ M @ ''.'' @ m0 @ ''.0'')
              else if xm then ''>='' @ M @ ''.0.0 <'' @ succStr M @ ''.0.0''
              else if xp then
                ''>='' @ M @ ''.'' @ strOf m @ ''.0 <'' @ M @ ''.'' @ succStr (strOf m) @ ''.0''
              else tok))"

definition replaceXRanges :: "string \<Rightarrow> string" where
  "replaceXRanges tok = join '' '' (map replaceXRange (splitWs tok))"

definition replaceStars :: "string \<Rightarrow> string" where
  "replaceStars tok = replaceStar (trim tok)"

definition parseComparator :: "string \<Rightarrow> string" where
  "parseComparator tok = replaceStars (replaceXRanges (replaceTildes (replaceCarets tok)))"

text \<open>The callback \<^verbatim>\<open>hyphenReplace\<close> on the groups of \<^verbatim>\<open>HYPHENRANGE\<close>.\<close>

definition hyphenReplace :: "(string \<times> xcaptures) \<Rightarrow> (string \<times> xcaptures) \<Rightarrow> string" where
  "hyphenReplace f t =
     (case (f, t) of
        ((fromText, fM, fm, fp, fpr, fb), (toText, tM, tm, tp, tpr, tb)) \<Rightarrow>
          (let fromNew =
                 (if isX (Some fM) then []
                  else if isX fm then ''>='' @ fM @ ''.0.0''
                  else if isX fp then ''>='' @ fM @ ''.'' @ strOf fm @ ''.0''
                  else ''>='' @ fromText);
               toNew =
                 (if isX (Some tM) then []
                  else if isX tm then ''<'' @ succStr tM @ ''.0.0''
                  else if isX tp then ''<'' @ tM @ ''.'' @ succStr (strOf tm) @ ''.0''
                  else if tpr \<noteq> None \<and> tpr \<noteq> Some [] then
                    ''<='' @ tM @ ''.'' @ strOf tm @ ''.'' @ strOf tp @ ''-'' @ strOf tpr
                  else ''<='' @ toText)
           in trim (fromNew @ '' '' @ toNew)))"

subsection \<open>The class Comparator\<close>

text \<open>\<open>c_semver\<close> is \<open>None\<close> for the sentinel \<^verbatim>\<open>ANY\<close>.\<close>

record comparator =
  c_semver :: "semver option"
  c_operator :: string
  c_value :: string

text \<open>The constructor with its \<^verbatim>\<open>parse\<close> method.\<close>

definition Comparator_new :: "string \<Rightarrow> error + comparator" where
  "Comparator_new tok =
     (case matchCOMPARATOR tok of
        None \<Rightarrow> Inl TypeError
      | Some (m1, m2) \<Rightarrow>
          (let op1 = (case m1 of None \<Rightarrow> [] | Some g \<Rightarrow> g);
               op = (if op1 = ''='' then [] else op1)
           in case m2 of
                None \<Rightarrow> Inr \<lparr>c_semver = None, c_operator = op, c_value = []\<rparr>
              | Some t \<Rightarrow>
                  if t = [] then Inr \<lparr>c_semver = None, c_operator = op, c_value = []\<rparr>
                  else
                    (case SemVer_new (IString t) of
                       Inl e \<Rightarrow> Inl e
                     | Inr v \<Rightarrow>
                         Inr \<lparr>c_semver = Some v, c_operator = op,
                              c_value = op @ version v\<rparr>)))"

text \<open>\<^verbatim>\<open>cmp(v1, operator, v2)\<close> on two instances, as \<^verbatim>\<open>Comparator.test\<close> calls it.\<close>

definition cmp :: "semver \<Rightarrow> string \<Rightarrow> semver \<Rightarrow> error + bool" where
  "cmp v1 operator v2 =
     (if operator = ''==='' then Inr (version v1 = version v2)
      else if operator = ''!=='' then Inr (version v1 \<noteq> version v2)
      else if operator = [] \<or> operator = ''='' \<or> operator = ''==''
        then eq (ISemVer v1) (ISemVer v2)
      else if operator = ''!='' then neq (ISemVer v1) (ISemVer v2)
      else if operator = ''>'' then gt (ISemVer v1) (ISemVer v2)
      else if operator = ''>='' then gte (ISemVer v1) (ISemVer v2)
      else if operator = ''<'' then lt (ISemVer v1) (ISemVer v2)
      else if operator = ''<='' then lte (ISemVer v1) (ISemVer v2)
      else Inl TypeError)"

definition Comparator_test :: "comparator \<Rightarrow> semver \<Rightarrow> error + bool" where
  "Comparator_test c v =
     (case c_semver c of None \<Rightarrow> Inr True | Some sv \<Rightarrow> cmp v (c_operator c) sv)"

subsection \<open>The class Range\<close>

record range =
  r_raw :: string
  r_includePrerelease :: bool
  r_set :: "comparator list list"
  r_range :: string

text \<open>Results of a \<^verbatim>\<open>map\<close> whose callback can throw: the first throw ends it.\<close>

fun collect :: "(error + 'a) list \<Rightarrow> error + 'a list" where
  "collect [] = Inr []"
| "collect (x # xs) =
     (case x of
        Inl e \<Rightarrow> Inl e
      | Inr a \<Rightarrow> (case collect xs of Inl e \<Rightarrow> Inl e | Inr as \<Rightarrow> Inr (a # as)))"

definition parseRange :: "string \<Rightarrow> error + comparator list" where
  "parseRange range0 =
     (let range1 = trim range0;
          range2 = (case matchHYPHENRANGE range1 of
                      None \<Rightarrow> range1
                    | Some (f, t) \<Rightarrow> hyphenReplace f t);
          range3 = join '' '' (splitWs range2);
          toks = splitWs (join '' '' (map parseComparator (splitOn CHR '' '' range3)))
      in collect (map Comparator_new toks))"

text \<open>
  The separator \<^verbatim>\<open>\s*\|\|\s*\<close> at the front of a string (the rest after it), and
  \<^verbatim>\<open>range.split(/\s*\|\|\s*/)\<close>: a match is tried at each position in turn.
\<close>

definition orAt :: "string \<Rightarrow> string option" where
  "orAt s =
     (case dropWhile isSpace s of
        a # b # t \<Rightarrow> if a = CHR ''|'' \<and> b = CHR ''|'' then Some (dropWhile isSpace t) else None
      | _ \<Rightarrow> None)"

function splitOr :: "string \<Rightarrow> string list" where
  "splitOr [] = [[]]"
| "splitOr (x # xs) =
     (case orAt (x # xs) of
        Some rest \<Rightarrow> [] # splitOr rest
      | None \<Rightarrow> (case splitOr xs of [] \<Rightarrow> [[x]] | p # ps \<Rightarrow> (x # p) # ps))"
  by pat_completeness auto
termination
proof (relation "measure length")
  show "wf (measure length)" by simp
next
  fix x :: char and xs rest :: string
  assume a: "orAt (x # xs) = Some rest"
  have l1: "length (dropWhile isSpace (x # xs)) \<le> length (x # xs)"
    by (rule length_dropWhile_le)
  obtain t where t: "dropWhile isSpace (x # xs) = CHR ''|'' # CHR ''|'' # t"
    and r: "rest = dropWhile isSpace t"
    using a unfolding orAt_def by (auto split: list.splits if_splits)
  have "length rest \<le> length t" unfolding r by (rule length_dropWhile_le)
  with l1 t have "length rest < length (x # xs)" by simp
  then show "(rest, x # xs) \<in> measure length" by simp
next
  fix x :: char and xs :: string
  show "(xs, x # xs) \<in> measure length" by simp
qed

definition formatRange :: "comparator list list \<Rightarrow> string" where
  "formatRange cs = trim (join ''||'' (map (\<lambda>comps. trim (join '' '' (map c_value comps))) cs))"

definition Range_new :: "string \<Rightarrow> bool \<Rightarrow> error + range" where
  "Range_new range0 includePre =
     (case collect (map (\<lambda>r. parseRange (trim r)) (splitOr range0)) of
        Inl e \<Rightarrow> Inl e
      | Inr groups \<Rightarrow>
          (let set0 = filter (\<lambda>c. c \<noteq> []) groups in
           if set0 = [] then Inl TypeError
           else Inr \<lparr>r_raw = range0, r_includePrerelease = includePre, r_set = set0,
                     r_range = formatRange set0\<rparr>))"

text \<open>The first loop of \<^verbatim>\<open>testSet\<close>: every comparator tests true.\<close>

fun allTest :: "comparator list \<Rightarrow> semver \<Rightarrow> error + bool" where
  "allTest [] v = Inr True"
| "allTest (c # cs) v =
     (case Comparator_test c v of
        Inl e \<Rightarrow> Inl e
      | Inr b \<Rightarrow> if b then allTest cs v else Inr False)"

text \<open>The test of its second loop: a comparator with a prerelease tag on the version's own tuple.\<close>

definition allowsPre :: "semver \<Rightarrow> comparator \<Rightarrow> bool" where
  "allowsPre v c =
     (case c_semver c of
        None \<Rightarrow> False
      | Some allowed \<Rightarrow>
          prerelease allowed \<noteq> [] \<and> major allowed = major v \<and>
          minor allowed = minor v \<and> patch allowed = patch v)"

definition testSet :: "comparator list \<Rightarrow> semver \<Rightarrow> bool \<Rightarrow> error + bool" where
  "testSet set0 v includePre =
     (case allTest set0 v of
        Inl e \<Rightarrow> Inl e
      | Inr b \<Rightarrow>
          if \<not> b then Inr False
          else if prerelease v \<noteq> [] \<and> \<not> includePre then Inr (list_ex (allowsPre v) set0)
          else Inr True)"

text \<open>The loop of \<^verbatim>\<open>Range.test\<close> over the groups, and the method itself.\<close>

fun testGroups :: "comparator list list \<Rightarrow> semver \<Rightarrow> bool \<Rightarrow> error + bool" where
  "testGroups [] v includePre = Inr False"
| "testGroups (g # gs) v includePre =
     (case testSet g v includePre of
        Inl e \<Rightarrow> Inl e
      | Inr b \<Rightarrow> if b then Inr True else testGroups gs v includePre)"

text \<open>
  A version that is neither a string nor an instance reaches \<^verbatim>\<open>testSet\<close> as it is, where
  the constructor (called by \<^verbatim>\<open>compare\<close>) or the read of \<^verbatim>\<open>version.prerelease\<close> throws.
\<close>

definition Range_test :: "range \<Rightarrow> input \<Rightarrow> error + bool" where
  "Range_test r version' =
     (case version' of
        IString s \<Rightarrow>
          (case SemVer_new (IString s) of
             Inl e \<Rightarrow> Inl e
           | Inr v \<Rightarrow> testGroups (r_set r) v (r_includePrerelease r))
      | ISemVer v \<Rightarrow> testGroups (r_set r) v (r_includePrerelease r)
      | IOther \<Rightarrow> if r_set r = [] then Inr False else Inl TypeError)"

subsection \<open>The query functions\<close>

definition satisfies :: "input \<Rightarrow> string \<Rightarrow> bool \<Rightarrow> error + bool" where
  "satisfies version' range0 includePre =
     (case Range_new range0 includePre of
        Inl e \<Rightarrow> Inr False
      | Inr r \<Rightarrow> Range_test r version')"

text \<open>
  The \<^verbatim>\<open>forEach\<close> of \<^verbatim>\<open>maxSatisfying\<close> and of \<^verbatim>\<open>minSatisfying\<close>, with the two variables of
  the closure as arguments. A value kept in \<^verbatim>\<open>max\<close> or \<^verbatim>\<open>min\<close> passed the range test, so it
  is an instance or a non-empty string and \<^verbatim>\<open>!max\<close> holds of \<^verbatim>\<open>null\<close> only. Calling
  \<^verbatim>\<open>compare\<close> on a \<^verbatim>\<open>minSV\<close> that is \<^verbatim>\<open>null\<close> is the error \<open>NullDereference\<close>.
\<close>

fun maxLoop :: "range \<Rightarrow> input list \<Rightarrow> input option \<Rightarrow> semver option \<Rightarrow> error + input option" where
  "maxLoop r [] max0 maxSV = Inr max0"
| "maxLoop r (v # vs) max0 maxSV =
     (case Range_test r v of
        Inl e \<Rightarrow> Inl e
      | Inr b \<Rightarrow>
          if \<not> b then maxLoop r vs max0 maxSV
          else
            (case (if max0 = None then Inr True
                   else (case maxSV of
                           None \<Rightarrow> Inr False
                         | Some sv \<Rightarrow> map_sum id (\<lambda>c. c = - 1) (SemVer_compare sv v))) of
               Inl e \<Rightarrow> Inl e
             | Inr take0 \<Rightarrow>
                 if take0 then
                   (case SemVer_new v of
                      Inl e \<Rightarrow> Inl e
                    | Inr sv \<Rightarrow> maxLoop r vs (Some v) (Some sv))
                 else maxLoop r vs max0 maxSV))"

definition maxSatisfying :: "input list \<Rightarrow> string \<Rightarrow> bool \<Rightarrow> error + input option" where
  "maxSatisfying versions range0 includePre =
     (case Range_new range0 includePre of
        Inl e \<Rightarrow> Inr None
      | Inr r \<Rightarrow> maxLoop r versions None None)"

fun minLoop :: "range \<Rightarrow> input list \<Rightarrow> input option \<Rightarrow> semver option \<Rightarrow> error + input option" where
  "minLoop r [] min0 minSV = Inr min0"
| "minLoop r (v # vs) min0 minSV =
     (case Range_test r v of
        Inl e \<Rightarrow> Inl e
      | Inr b \<Rightarrow>
          if \<not> b then minLoop r vs min0 minSV
          else
            (case (if min0 = None then Inr True
                   else (case minSV of
                           None \<Rightarrow> Inl NullDereference
                         | Some sv \<Rightarrow> map_sum id (\<lambda>c. c = 1) (SemVer_compare sv v))) of
               Inl e \<Rightarrow> Inl e
             | Inr take0 \<Rightarrow>
                 if take0 then
                   (case SemVer_new v of
                      Inl e \<Rightarrow> Inl e
                    | Inr sv \<Rightarrow> minLoop r vs (Some v) (Some sv))
                 else minLoop r vs min0 minSV))"

definition minSatisfying :: "input list \<Rightarrow> string \<Rightarrow> bool \<Rightarrow> error + input option" where
  "minSatisfying versions range0 includePre =
     (case Range_new range0 includePre of
        Inl e \<Rightarrow> Inr None
      | Inr r \<Rightarrow> minLoop r versions None None)"

definition validRange :: "string \<Rightarrow> bool \<Rightarrow> string option" where
  "validRange range0 includePre =
     (case Range_new range0 includePre of
        Inl e \<Rightarrow> None
      | Inr r \<Rightarrow> Some (if r_range r = [] then ''*'' else r_range r))"

text \<open>
  \<^verbatim>\<open>minVersion\<close>. \<open>lowerBound\<close> is the body of its \<^verbatim>\<open>forEach\<close> on one comparator, with
  \<^verbatim>\<open>minver\<close> as argument and result; reading \<^verbatim>\<open>comparator.semver.version\<close> of the sentinel
  \<^verbatim>\<open>ANY\<close> gives \<^verbatim>\<open>undefined\<close>, which the constructor rejects.
\<close>

definition lowerBound :: "semver option \<Rightarrow> comparator \<Rightarrow> error + semver option" where
  "lowerBound minver c =
     (case SemVer_new (case c_semver c of None \<Rightarrow> IOther | Some sv \<Rightarrow> IString (version sv)) of
        Inl e \<Rightarrow> Inl e
      | Inr compver \<Rightarrow>
          (let bumped =
                 (if prerelease compver = []
                  then compver\<lparr>patch := plus1 (patch compver)\<rparr>
                  else compver\<lparr>prerelease := prerelease compver @ [Num 0]\<rparr>);
               keep = (\<lambda>cv.
                 case minver of
                   None \<Rightarrow> Inr (Some cv)
                 | Some m \<Rightarrow>
                     (case gt (ISemVer m) (ISemVer cv) of
                        Inl e \<Rightarrow> Inl e
                      | Inr b \<Rightarrow> if b then Inr (Some cv) else Inr minver))
           in if c_operator c = ''>'' then keep (finish bumped)
              else if c_operator c = [] \<or> c_operator c = ''>='' then keep compver
              else if c_operator c = ''<'' \<or> c_operator c = ''<='' then Inr minver
              else Inl Error))"

fun lowerBounds :: "semver option \<Rightarrow> comparator list \<Rightarrow> error + semver option" where
  "lowerBounds minver [] = Inr minver"
| "lowerBounds minver (c # cs) =
     (case lowerBound minver c of Inl e \<Rightarrow> Inl e | Inr m \<Rightarrow> lowerBounds m cs)"

definition minVersion :: "string \<Rightarrow> bool \<Rightarrow> error + semver option" where
  "minVersion range0 includePre =
     (case Range_new range0 includePre of
        Inl e \<Rightarrow> Inl e
      | Inr r \<Rightarrow>
          (case SemVer_new (IString ''0.0.0'') of
             Inl e \<Rightarrow> Inl e
           | Inr z \<Rightarrow>
               (case Range_test r (ISemVer z) of
                  Inl e \<Rightarrow> Inl e
                | Inr b \<Rightarrow>
                    if b then Inr (Some z)
                    else
                      (case SemVer_new (IString ''0.0.0-0'') of
                         Inl e \<Rightarrow> Inl e
                       | Inr z0 \<Rightarrow>
                           (case Range_test r (ISemVer z0) of
                              Inl e \<Rightarrow> Inl e
                            | Inr b0 \<Rightarrow>
                                if b0 then Inr (Some z0)
                                else
                                  (case lowerBounds None (concat (r_set r)) of
                                     Inl e \<Rightarrow> Inl e
                                   | Inr None \<Rightarrow> Inr None
                                   | Inr (Some m) \<Rightarrow>
                                       (case Range_test r (ISemVer m) of
                                          Inl e \<Rightarrow> Inl e
                                        | Inr b1 \<Rightarrow> if b1 then Inr (Some m) else Inr None)))))))"

subsection \<open>Invariants and specification-level definitions\<close>

text \<open>
  These are not functions of the source. \<open>specCaretNext\<close> follows the words of the
  specification for the upper bound of a caret range. \<open>isNid\<close> is the language of
  \<^verbatim>\<open>NUMERICIDENTIFIER\<close>. \<open>wfIdent\<close>, \<open>wfSemVer\<close> and \<open>wfComparator\<close> state what the
  constructors establish; \<open>coreText\<close> is the text a version pattern matched without the
  leading \<^verbatim>\<open>v\<close> and the build; \<open>opTest\<close> and \<open>ctest\<close> are the outcome of \<^verbatim>\<open>cmp\<close> and of
  \<^verbatim>\<open>Comparator.test\<close> on instances for which no constructor throws.
\<close>

definition specCaretNext :: "nat \<Rightarrow> nat \<Rightarrow> nat \<Rightarrow> string" where
  "specCaretNext M m p =
     (if M \<noteq> 0 then dec (M + 1) @ ''.0.0''
      else if m \<noteq> 0 then ''0.'' @ dec (m + 1) @ ''.0''
      else ''0.0.'' @ dec (p + 1))"

definition isNid :: "string \<Rightarrow> bool" where
  "isNid x = (x \<noteq> [] \<and> list_all isDigit x \<and> (x = ''0'' \<or> hd x \<noteq> CHR ''0''))"











section \<open>Properties\<close>

subsection \<open>Numbers and incrementing\<close>

lemma toDouble_small: "n < 2 ^ 53 \<Longrightarrow> toDouble n = n"
  by (simp add: toDouble_def)

lemma nbits_2_53: "nbits 9007199254740992 = 54"
  by (simp add: nbits.simps)

lemma toDouble_2_53: "toDouble 9007199254740992 = 9007199254740992"
  by (simp add: toDouble_def nbits_2_53)

lemma plus1_safe: "n \<le> MAX_SAFE_INTEGER \<Longrightarrow> plus1 n = n + 1"
proof (cases "n = 9007199254740991")
  case True
  then show ?thesis by (simp add: plus1_def toDouble_2_53)
next
  case False
  assume "n \<le> MAX_SAFE_INTEGER"
  with False have "n + 1 < 2 ^ 53" by (simp add: MAX_SAFE_INTEGER_def)
  then show ?thesis by (simp add: plus1_def toDouble_small)
qed

lemma finish_fields [simp]:
  "major (finish v) = major v" "minor (finish v) = minor v" "patch (finish v) = patch v"
  "prerelease (finish v) = prerelease v" "build (finish v) = build v"
  "version (finish v) = formatStr v" "raw (finish v) = formatStr v"
  by (simp_all add: finish_def format_def)

text \<open>
  C5. For an instance whose fields are in the range of a version (at most
  \<^verbatim>\<open>MAX_SAFE_INTEGER\<close>), \<^verbatim>\<open>inc("major")\<close> returns, and the result has the major field
  incremented unless the version is a pre-major one (minor and patch zero, a prerelease
  present), in which case major is kept; minor and patch are zero and the prerelease is
  empty. \<^verbatim>\<open>"minor"\<close> and \<^verbatim>\<open>"patch"\<close> short-circuit in the same way. The four examples of the
  specification evaluate as it says.
\<close>

theorem inc_major_minor_patch:
  assumes "major v \<le> MAX_SAFE_INTEGER" and "minor v \<le> MAX_SAFE_INTEGER"
    and "patch v \<le> MAX_SAFE_INTEGER"
  shows
  "(\<exists>w. SemVer_inc v ''major'' i = Inr w \<and>
        major w = (if minor v = 0 \<and> patch v = 0 \<and> prerelease v \<noteq> [] then major v else major v + 1) \<and>
        minor w = 0 \<and> patch w = 0 \<and> prerelease w = []) \<and>
   (\<exists>w. SemVer_inc v ''minor'' i = Inr w \<and> major w = major v \<and>
        minor w = (if patch v = 0 \<and> prerelease v \<noteq> [] then minor v else minor v + 1) \<and>
        patch w = 0 \<and> prerelease w = []) \<and>
   (\<exists>w. SemVer_inc v ''patch'' i = Inr w \<and> major w = major v \<and> minor w = minor v \<and>
        patch w = (if prerelease v \<noteq> [] then patch v else patch v + 1) \<and>
        prerelease w = []) \<and>
   inc (IString ''1.2.3'') ''patch'' None = Some ''1.2.4'' \<and>
   inc (IString ''1.2.3-4'') ''patch'' None = Some ''1.2.3'' \<and>
   inc (IString ''1.0.0'') ''major'' None = Some ''2.0.0'' \<and>
   inc (IString ''1.0.0-5'') ''major'' None = Some ''1.0.0''"
proof -
  have a: "\<exists>w. SemVer_inc v ''major'' i = Inr w \<and>
        major w = (if minor v = 0 \<and> patch v = 0 \<and> prerelease v \<noteq> [] then major v else major v + 1) \<and>
        minor w = 0 \<and> patch w = 0 \<and> prerelease w = []"
    using assms by (simp add: SemVer_inc_def plus1_safe)
  have b: "\<exists>w. SemVer_inc v ''minor'' i = Inr w \<and> major w = major v \<and>
        minor w = (if patch v = 0 \<and> prerelease v \<noteq> [] then minor v else minor v + 1) \<and>
        patch w = 0 \<and> prerelease w = []"
    using assms by (simp add: SemVer_inc_def plus1_safe)
  have c: "\<exists>w. SemVer_inc v ''patch'' i = Inr w \<and> major w = major v \<and> minor w = minor v \<and>
        patch w = (if prerelease v \<noteq> [] then patch v else patch v + 1) \<and>
        prerelease w = []"
    using assms by (simp add: SemVer_inc_def incPatch_def plus1_safe)
  have d: "inc (IString ''1.2.3'') ''patch'' None = Some ''1.2.4''" by code_simp
  have e: "inc (IString ''1.2.3-4'') ''patch'' None = Some ''1.2.3''" by code_simp
  have f: "inc (IString ''1.0.0'') ''major'' None = Some ''2.0.0''" by code_simp
  have g: "inc (IString ''1.0.0-5'') ''major'' None = Some ''1.0.0''" by code_simp
  from a b c d e f g show ?thesis by blast
qed

theorem inc_major_minor_patch_witness:
  "major \<lparr>raw = ''1.0.0-5'', major = 1, minor = 0, patch = 0, version = ''1.0.0-5'',
          build = [], prerelease = [Num 5]\<rparr> \<le> MAX_SAFE_INTEGER \<and>
   (\<exists>w. SemVer_inc \<lparr>raw = ''1.0.0-5'', major = 1, minor = 0, patch = 0, version = ''1.0.0-5'',
          build = [], prerelease = [Num 5]\<rparr> ''major'' None = Inr w \<and> major w = 1 \<and>
          minor w = 0 \<and> patch w = 0 \<and> prerelease w = [])"
  using inc_major_minor_patch [of "\<lparr>raw = ''1.0.0-5'', major = 1, minor = 0, patch = 0,
      version = ''1.0.0-5'', build = [], prerelease = [Num 5]\<rparr>" None]
  by (simp add: MAX_SAFE_INTEGER_def)

subsection \<open>parse\<close>


subsection \<open>The order of versions\<close>

lemmas grammar_defs =
  code_def isDigit_def isLetter_def isIdChar_def isSpace_def isIdDot_def digitVal_def
  digitsVal_def allDigits_def trim_def takeNid_def expect_def matchMain_def isPrereleaseId_def
  isBuildId_def matchPre_def matchBuild_def matchFULLPLAIN_def matchFULL_def

lemmas semver_defs =
  MAX_LENGTH_def MAX_SAFE_INTEGER_def toNumber_def toDouble_def numberify_def
  SemVer_ofString_def SemVer_new_def format_def formatStr_def identStr_def digitChar_def
  dec.simps

lemmas compare_defs =
  compare_def compareSV_def compareMain_def comparePre_def compareIdentifiers_def orElse_def
  numeric_def numberOf_def

lemma nbits_2_54: "nbits 18014398509481984 = 55" "nbits 18014398509481985 = 55"
  by (simp_all add: nbits.simps)

lemma big_ids:
  "numberify ''18014398509481984'' = Str ''18014398509481984''"
  "numberify ''18014398509481985'' = Str ''18014398509481985''"
  "toNumber ''18014398509481984'' = 18014398509481984"
  "toNumber ''18014398509481985'' = 18014398509481984"
  by (simp_all add: numberify_def toNumber_def toDouble_def nbits_2_54 grammar_defs
      MAX_SAFE_INTEGER_def)

lemma digitChar_simps:
  "digitChar 0 = CHR ''0''" "digitChar 1 = CHR ''1''" "digitChar 2 = CHR ''2''"
  "digitChar 3 = CHR ''3''" "digitChar 4 = CHR ''4''" "digitChar 5 = CHR ''5''"
  "digitChar 6 = CHR ''6''" "digitChar 7 = CHR ''7''" "digitChar 8 = CHR ''8''"
  "digitChar 9 = CHR ''9''" "digitChar (Suc 0) = CHR ''1''"
  by code_simp+

lemma split_simps:
  "splitOn c [] = [[]]"
  "splitOn c (x # xs) =
     (if x = c then [] # splitOn c xs
      else (case splitOn c xs of [] \<Rightarrow> [[x]] | p # ps \<Rightarrow> (x # p) # ps))"
  by simp_all

lemma big_parse:
  "SemVer_ofString ''1.0.0-18014398509481985'' =
     Inr \<lparr>raw = ''1.0.0-18014398509481985'', major = 1, minor = 0, patch = 0,
          version = ''1.0.0-18014398509481985'', build = [],
          prerelease = [Str ''18014398509481985'']\<rparr>"
  "SemVer_ofString ''1.0.0-18014398509481984'' =
     Inr \<lparr>raw = ''1.0.0-18014398509481984'', major = 1, minor = 0, patch = 0,
          version = ''1.0.0-18014398509481984'', build = [],
          prerelease = [Str ''18014398509481984'']\<rparr>"
  by (simp_all add: SemVer_ofString_def grammar_defs big_ids MAX_LENGTH_def MAX_SAFE_INTEGER_def
      format_def formatStr_def identStr_def dec.simps digitChar_simps toNumber_def toDouble_def)

text \<open>
  C1. The rule of the claim fails on the code for numeric identifiers at or above
  \<^verbatim>\<open>MAX_SAFE_INTEGER\<close>: the constructor keeps them as strings and \<^verbatim>\<open>compareIdentifiers\<close>
  converts them to doubles. \<^verbatim>\<open>18014398509481985\<close> and \<^verbatim>\<open>18014398509481984\<close> differ as
  numbers and round to the same double, so two versions that differ in this identifier
  compare equal.
\<close>

theorem compare_large_numeric_identifiers:
  "compare (IString ''1.0.0-18014398509481985'') (IString ''1.0.0-18014398509481984'') = Inr 0"
  by (simp add: compare_defs SemVer_new_def big_parse big_ids allDigits_def isDigit_def code_def)

lemmas parse_simps =
  SemVer_ofString_def grammar_defs big_ids MAX_LENGTH_def MAX_SAFE_INTEGER_def
  format_def formatStr_def identStr_def dec.simps digitChar_simps toNumber_def toDouble_def
  numberify_def nbits_2_54

lemmas cmp_simps =
  compare_defs SemVer_new_def big_ids allDigits_def isDigit_def code_def

text \<open>
  C2. Equality under \<^verbatim>\<open>compare\<close> is not transitive on the code: the loop of \<^verbatim>\<open>comparePre\<close>
  returns 0 at the first pair of different identifiers that round to the same double, and
  goes on past a pair of identical ones. The three versions below are valid; the first
  two pairs compare equal and the third does not.
\<close>

theorem compare_equality_not_transitive:
  "compare (IString ''1.0.0-18014398509481985.1'') (IString ''1.0.0-18014398509481984.5'') = Inr 0 \<and>
   compare (IString ''1.0.0-18014398509481984.5'') (IString ''1.0.0-18014398509481985.2'') = Inr 0 \<and>
   compare (IString ''1.0.0-18014398509481985.1'') (IString ''1.0.0-18014398509481985.2'') = Inr (- 1)"
proof -
  have a: "SemVer_ofString ''1.0.0-18014398509481985.1'' =
     Inr \<lparr>raw = ''1.0.0-18014398509481985.1'', major = 1, minor = 0, patch = 0,
          version = ''1.0.0-18014398509481985.1'', build = [],
          prerelease = [Str ''18014398509481985'', Num 1]\<rparr>"
    by (simp add: parse_simps)
  have b: "SemVer_ofString ''1.0.0-18014398509481984.5'' =
     Inr \<lparr>raw = ''1.0.0-18014398509481984.5'', major = 1, minor = 0, patch = 0,
          version = ''1.0.0-18014398509481984.5'', build = [],
          prerelease = [Str ''18014398509481984'', Num 5]\<rparr>"
    by (simp add: parse_simps)
  have c: "SemVer_ofString ''1.0.0-18014398509481985.2'' =
     Inr \<lparr>raw = ''1.0.0-18014398509481985.2'', major = 1, minor = 0, patch = 0,
          version = ''1.0.0-18014398509481985.2'', build = [],
          prerelease = [Str ''18014398509481985'', Num 2]\<rparr>"
    by (simp add: parse_simps)
  show ?thesis
    by (simp add: cmp_simps a b c)
qed



lemma numeric_Num [simp]: "numeric (Num n)"
  by (simp add: numeric_def)






lemma compareSV_build [simp]:
  "compareSV (a\<lparr>build := x\<rparr>) b = compareSV a b" "compareSV a (b\<lparr>build := y\<rparr>) = compareSV a b"
  by (simp_all add: compareSV_def compareMain_def comparePre_def)

text \<open>
  C7. With a valid range and a version string that fails the grammar, \<^verbatim>\<open>satisfies\<close>,
  \<^verbatim>\<open>maxSatisfying\<close> and \<^verbatim>\<open>minSatisfying\<close> throw the \<^verbatim>\<open>TypeError\<close> of the constructor: only
  the construction of the range is inside their \<^verbatim>\<open>try\<close>.
\<close>

theorem non_throwing_entry_points_throw:
  "satisfies (IString ''not-a-version'') ''1.x'' False = Inl TypeError \<and>
   maxSatisfying [IString ''not-a-version''] ''1.x'' False = Inl TypeError \<and>
   minSatisfying [IString ''not-a-version''] ''1.x'' False = Inl TypeError"
proof -
  have a: "satisfies (IString ''not-a-version'') ''1.x'' False = Inl TypeError" by code_simp
  have b: "maxSatisfying [IString ''not-a-version''] ''1.x'' False = Inl TypeError" by code_simp
  have c: "minSatisfying [IString ''not-a-version''] ''1.x'' False = Inl TypeError" by code_simp
  from a b c show ?thesis by blast
qed

lemma invalid_range_sentinels:
  "Range_new r i = Inl e \<Longrightarrow>
     satisfies v r i = Inr False \<and> maxSatisfying vs r i = Inr None \<and>
     minSatisfying vs r i = Inr None \<and> validRange r i = None"
  by (simp add: satisfies_def maxSatisfying_def minSatisfying_def validRange_def)

subsection \<open>Decimal numerals\<close>

lemma code_digitChar: "d < 10 \<Longrightarrow> code (digitChar d) = 48 + d"
  by (simp add: code_def digitChar_def)

lemma isDigit_digitChar: "d < 10 \<Longrightarrow> isDigit (digitChar d)"
  by (simp add: isDigit_def code_digitChar)

lemma digitVal_digitChar: "d < 10 \<Longrightarrow> digitVal (digitChar d) = d"
  by (simp add: digitVal_def code_digitChar)

lemma code_inject: "code c = code d \<Longrightarrow> c = d"
  by (simp add: code_def)

lemma digitChar_zero: "d < 10 \<Longrightarrow> (digitChar d = CHR ''0'') = (d = 0)"
proof -
  assume d: "d < 10"
  have z: "code CHR ''0'' = 48" by (simp add: code_def)
  show ?thesis
  proof
    assume "digitChar d = CHR ''0''"
    then have "code (digitChar d) = 48" using z by simp
    with d show "d = 0" by (simp add: code_digitChar)
  next
    assume "d = 0"
    then have "code (digitChar d) = code CHR ''0''" using z by (simp add: code_digitChar)
    then show "digitChar d = CHR ''0''" by (rule code_inject)
  qed
qed

lemma dec_nonempty [simp]: "dec n \<noteq> []"
  by (subst dec.simps) simp

lemma dec_digits: "list_all isDigit (dec n)"
proof (induction n rule: dec.induct)
  case (1 n)
  show ?case
  proof (cases "n < 10")
    case True
    then show ?thesis by (subst dec.simps) (simp add: isDigit_digitChar)
  next
    case False
    with 1 have "list_all isDigit (dec (n div 10))" by simp
    moreover have "isDigit (digitChar (n mod 10))" by (simp add: isDigit_digitChar)
    ultimately show ?thesis using False by (subst dec.simps) simp
  qed
qed

lemma dec_0: "dec 0 = ''0''"
  by (subst dec.simps) (simp add: digitChar_simps)

lemma hd_dec: "(hd (dec n) = CHR ''0'') = (n = 0)"
proof (induction n rule: dec.induct)
  case (1 n)
  show ?case
  proof (cases "n < 10")
    case True
    then show ?thesis by (subst dec.simps) (simp add: digitChar_zero)
  next
    case False
    with 1 have "(hd (dec (n div 10)) = CHR ''0'') = (n div 10 = 0)" by simp
    moreover from False have "n div 10 \<noteq> 0" by simp
    ultimately show ?thesis using False by (subst dec.simps) (simp add: hd_append)
  qed
qed

lemma dec_eq_0: "(dec n = ''0'') = (n = 0)"
proof
  assume "dec n = ''0''"
  then have "hd (dec n) = CHR ''0''" by simp
  then show "n = 0" by (simp add: hd_dec)
qed (simp add: dec_0)

lemma digitsVal_snoc: "digitsVal (xs @ [c]) = 10 * digitsVal xs + digitVal c"
  by (simp add: digitsVal_def)

lemma digitsVal_dec: "digitsVal (dec n) = n"
proof (induction n rule: dec.induct)
  case (1 n)
  show ?case
  proof (cases "n < 10")
    case True
    then show ?thesis by (subst dec.simps) (simp add: digitsVal_def digitVal_digitChar)
  next
    case False
    with 1 have "digitsVal (dec (n div 10)) = n div 10" by simp
    then show ?thesis using False
      by (subst dec.simps) (simp add: digitsVal_snoc digitVal_digitChar)
  qed
qed


lemma toNumber_dec: "n \<le> MAX_SAFE_INTEGER \<Longrightarrow> toNumber (dec n) = n"
  by (simp add: toNumber_def digitsVal_dec toDouble_small MAX_SAFE_INTEGER_def)

lemma succStr_dec: "n \<le> MAX_SAFE_INTEGER \<Longrightarrow> succStr (dec n) = dec (n + 1)"
  by (simp add: succStr_def toNumber_dec plus1_safe)

lemma takeWhile_stop: "r = [] \<or> \<not> P (hd r) \<Longrightarrow> takeWhile P r = [] \<and> dropWhile P r = r"
  by (cases r) auto

lemma takeWhile_all_append:
  "list_all P xs \<Longrightarrow> r = [] \<or> \<not> P (hd r) \<Longrightarrow> takeWhile P (xs @ r) = xs \<and> dropWhile P (xs @ r) = r"
  by (induction xs) (simp_all add: takeWhile_stop)

lemma takeNid_dec:
  assumes "r = [] \<or> \<not> isDigit (hd r)"
  shows "takeNid (dec n @ r) = Some (dec n, r)"
proof (cases "n = 0")
  case True
  then show ?thesis by (simp add: dec_0 takeNid_def)
next
  case False
  obtain c cs where d: "dec n = c # cs" using dec_nonempty [of n] by (cases "dec n") auto
  from False have c0: "c \<noteq> CHR ''0''" using hd_dec [of n] d by simp
  from dec_digits [of n] d have dg: "isDigit c" "list_all isDigit cs" by simp_all
  from takeWhile_all_append [OF dg(2) assms] d c0 dg(1) show ?thesis
    by (simp add: takeNid_def)
qed

lemma isDigit_not_x: "isDigit c \<Longrightarrow> c \<noteq> CHR ''x'' \<and> c \<noteq> CHR ''X'' \<and> c \<noteq> CHR ''*'' \<and> c \<noteq> CHR ''.''
   \<and> c \<noteq> CHR ''-'' \<and> c \<noteq> CHR ''+'' \<and> c \<noteq> CHR ''v'' \<and> c \<noteq> CHR ''='' \<and> \<not> isSpace c"
  by (auto simp: isDigit_def isSpace_def code_def)

lemma hd_dec_digit: "isDigit (hd (dec n))"
  using dec_digits [of n] dec_nonempty [of n] by (cases "dec n") auto

lemma takeXrId_dec:
  assumes "r = [] \<or> \<not> isDigit (hd r)"
  shows "takeXrId (dec n @ r) = Some (dec n, r)"
proof -
  obtain c cs where d: "dec n = c # cs" using dec_nonempty [of n] by (cases "dec n") auto
  with hd_dec_digit [of n] have "isDigit c" by simp
  from isDigit_not_x [OF this] takeNid_dec [OF assms, of n] d show ?thesis
    by (simp add: takeXrId_def)
qed

lemma isX_dec [simp]: "\<not> isX (Some (dec n))"
  using hd_dec_digit [of n] dec_nonempty [of n]
  by (cases "dec n") (auto simp: isX_def dest: isDigit_not_x)

subsection \<open>The caret pattern\<close>

lemma dropPrefix_dec [simp]:
  "dropWhile (\<lambda>c. c = CHR ''v'' \<or> c = CHR ''='' \<or> isSpace c) (dec n @ r) = dec n @ r"
proof -
  obtain c cs where d: "dec n = c # cs" using dec_nonempty [of n] by (cases "dec n") auto
  with hd_dec_digit [of n] have "isDigit c" by simp
  from isDigit_not_x [OF this] d show ?thesis by simp
qed

lemma matchPre_text:
  assumes "list_all isIdDot pr" and "list_all isPrereleaseId (splitOn CHR ''.'' pr)"
  shows "matchPre (CHR ''-'' # pr) = Some (Some pr, [])"
proof -
  have tw: "takeWhile isIdDot pr = pr" using assms(1) by (simp add: list_all_iff)
  have dw: "dropWhile isIdDot pr = []" using assms(1) by (simp add: list_all_iff)
  show ?thesis unfolding matchPre_def Let_def by (simp add: tw dw assms(2))
qed

lemma takeXrId_dec_dot: "takeXrId (dec n @ CHR ''.'' # r) = Some (dec n, CHR ''.'' # r)"
  by (rule takeXrId_dec) (simp add: isDigit_def code_def)

lemma matchXRANGEPLAIN_full:
  assumes "tl0 = [] \<and> pr = None \<or>
           (\<exists>t. tl0 = CHR ''-'' # t \<and> pr = Some t \<and> list_all isIdDot t \<and>
                list_all isPrereleaseId (splitOn CHR ''.'' t))"
  shows "matchXRANGEPLAIN (dec M @ ''.'' @ dec m @ ''.'' @ dec p @ tl0) =
           Some ((dec M, Some (dec m), Some (dec p), pr, None), [])"
proof -
  have nd: "\<not> isDigit CHR ''-''"
    by (simp add: isDigit_def code_def)
  have t0: "tl0 = [] \<or> \<not> isDigit (hd tl0)" using assms nd by auto
  have c: "takeXrId (dec p @ tl0) = Some (dec p, tl0)"
    by (rule takeXrId_dec) (rule t0)
  have d: "matchPre tl0 = Some (pr, [])"
    using assms matchPre_text by (auto simp: matchPre_def)
  have e: "matchBuild [] = Some (None, [])" by (simp add: matchBuild_def)
  show ?thesis
    unfolding matchXRANGEPLAIN_def
    by (simp add: takeXrId_dec_dot c d e expect_def)
qed

lemma matchXRANGEPLAIN_Mx:
  "matchXRANGEPLAIN (dec M) = Some ((dec M, None, None, None, None), [])"
  "matchXRANGEPLAIN (dec M @ ''.x'') = Some ((dec M, Some ''x'', None, None, None), [])"
  "matchXRANGEPLAIN (dec M @ ''.'' @ dec m @ ''.x'') =
     Some ((dec M, Some (dec m), Some ''x'', None, None), [])"
proof -
  have a: "takeXrId (dec M @ []) = Some (dec M, [])"
    by (rule takeXrId_dec) simp
  have x: "takeXrId ''x'' = Some (''x'', [])" by (simp add: takeXrId_def)
  show "matchXRANGEPLAIN (dec M) = Some ((dec M, None, None, None, None), [])"
    using a dropPrefix_dec [of M "[]"] unfolding matchXRANGEPLAIN_def
    by (simp add: expect_def)
  show "matchXRANGEPLAIN (dec M @ ''.x'') = Some ((dec M, Some ''x'', None, None, None), [])"
    unfolding matchXRANGEPLAIN_def by (simp add: takeXrId_dec_dot x expect_def)
  show "matchXRANGEPLAIN (dec M @ ''.'' @ dec m @ ''.x'') =
     Some ((dec M, Some (dec m), Some ''x'', None, None), [])"
    unfolding matchXRANGEPLAIN_def
    by (simp add: takeXrId_dec_dot x expect_def matchPre_def matchBuild_def)
qed

lemma isX_simps [simp]: "isX None" "isX (Some ''x'')"
  by (simp_all add: isX_def)

lemma caret_rewrite_core:
  assumes "M \<le> MAX_SAFE_INTEGER" and "m \<le> MAX_SAFE_INTEGER" and "p \<le> MAX_SAFE_INTEGER"
    and "list_all isIdDot pr" and "list_all isPrereleaseId (splitOn CHR ''.'' pr)"
  shows
  "replaceCaret (''^'' @ dec M @ ''.'' @ dec m @ ''.'' @ dec p) =
     ''>='' @ dec M @ ''.'' @ dec m @ ''.'' @ dec p @ '' <'' @ specCaretNext M m p \<and>
   replaceCaret (''^'' @ dec M @ ''.'' @ dec m @ ''.'' @ dec p @ ''-'' @ pr) =
     ''>='' @ dec M @ ''.'' @ dec m @ ''.'' @ dec p @ ''-'' @ pr @ '' <'' @ specCaretNext M m p \<and>
   replaceCaret (''^'' @ dec M @ ''.'' @ dec m @ ''.x'') =
     ''>='' @ dec M @ ''.'' @ dec m @ ''.0 <'' @
       (if M = 0 then ''0.'' @ dec (m + 1) @ ''.0'' else dec (M + 1) @ ''.0.0'') \<and>
   replaceCaret (''^'' @ dec M @ ''.x'') = ''>='' @ dec M @ ''.0.0 <'' @ dec (M + 1) @ ''.0.0'' \<and>
   replaceCaret (''^'' @ dec M) = ''>='' @ dec M @ ''.0.0 <'' @ dec (M + 1) @ ''.0.0''"
proof -
  note sx = succStr_dec [OF assms(1)] succStr_dec [OF assms(2)] succStr_dec [OF assms(3)]
  have pne: "pr \<noteq> []" using assms(5) by (cases pr) (auto simp: isPrereleaseId_def)
  have a: "replaceCaret (''^'' @ dec M @ ''.'' @ dec m @ ''.'' @ dec p) =
     ''>='' @ dec M @ ''.'' @ dec m @ ''.'' @ dec p @ '' <'' @ specCaretNext M m p"
    using matchXRANGEPLAIN_full [of "[]" None M m p] sx
    by (simp add: replaceCaret_def matchCARET_def expect_def strOf_def specCaretNext_def
        dec_eq_0 dec_0)
  have b: "replaceCaret (''^'' @ dec M @ ''.'' @ dec m @ ''.'' @ dec p @ ''-'' @ pr) =
     ''>='' @ dec M @ ''.'' @ dec m @ ''.'' @ dec p @ ''-'' @ pr @ '' <'' @ specCaretNext M m p"
    using matchXRANGEPLAIN_full [of "CHR ''-'' # pr" "Some pr" M m p] sx assms(4,5) pne
    by (simp add: replaceCaret_def matchCARET_def expect_def strOf_def specCaretNext_def
        dec_eq_0 dec_0)
  have c: "replaceCaret (''^'' @ dec M @ ''.'' @ dec m @ ''.x'') =
     ''>='' @ dec M @ ''.'' @ dec m @ ''.0 <'' @
       (if M = 0 then ''0.'' @ dec (m + 1) @ ''.0'' else dec (M + 1) @ ''.0.0'')"
    using matchXRANGEPLAIN_Mx(3) [of M m] sx
    by (simp add: replaceCaret_def matchCARET_def expect_def strOf_def specCaretNext_def
        dec_eq_0 dec_0)
  have d: "replaceCaret (''^'' @ dec M @ ''.x'') = ''>='' @ dec M @ ''.0.0 <'' @ dec (M + 1) @ ''.0.0''"
    using matchXRANGEPLAIN_Mx(2) [of M] sx
    by (simp add: replaceCaret_def matchCARET_def expect_def)
  have e: "replaceCaret (''^'' @ dec M) = ''>='' @ dec M @ ''.0.0 <'' @ dec (M + 1) @ ''.0.0''"
    using matchXRANGEPLAIN_Mx(1) [of M] sx
    by (simp add: replaceCaret_def matchCARET_def expect_def)
  from a b c d e show ?thesis by blast
qed

subsection \<open>diff\<close>

lemma parse_IString_Some:
  "parse (IString s) = Some v \<Longrightarrow> SemVer_new (IString s) = Inr v"
  by (cases "SemVer_new (IString s)") (auto simp: parse_def split: if_splits)

lemma compareIdentifiers_Num:
  "compareIdentifiers (Num a) (Num b) = (if a = b then 0 else if a < b then - 1 else 1)"
  by (simp add: compareIdentifiers_def numberOf_def)

lemma compareMain_eq_0:
  "(compareMain a b = 0) = (major a = major b \<and> minor a = minor b \<and> patch a = patch b)"
  by (auto simp: compareMain_def orElse_def compareIdentifiers_Num)

lemma compareSV_release:
  "prerelease a = [] \<Longrightarrow> prerelease b = [] \<Longrightarrow> compareSV a b = compareMain a b"
  by (simp add: compareSV_def comparePre_def orElse_def)

text \<open>
  C9, amended. For two version strings that \<^verbatim>\<open>parse\<close> accepts, \<^verbatim>\<open>diff\<close> returns \<^verbatim>\<open>null\<close> if
  they are equal under \<^verbatim>\<open>compare\<close>; otherwise, if either has a prerelease, \<^verbatim>\<open>"pre"\<close>
  followed by the name of the first field among major, minor, patch that differs, or
  \<^verbatim>\<open>"prerelease"\<close> when none of them differs; otherwise the name of the first field that
  differs (one always does).
\<close>

theorem diff_of_parsed_versions:
  assumes "parse (IString s1) = Some v1" and "parse (IString s2) = Some v2"
  shows
  "compare (IString s1) (IString s2) = Inr (compareSV v1 v2) \<and>
   diff (IString s1) (IString s2) =
     Inr (if compareSV v1 v2 = 0 then None
          else if prerelease v1 \<noteq> [] \<or> prerelease v2 \<noteq> [] then
            Some (if major v1 \<noteq> major v2 then ''premajor''
                  else if minor v1 \<noteq> minor v2 then ''preminor''
                  else if patch v1 \<noteq> patch v2 then ''prepatch''
                  else ''prerelease'')
          else
            Some (if major v1 \<noteq> major v2 then ''major''
                  else if minor v1 \<noteq> minor v2 then ''minor''
                  else ''patch''))"
proof -
  note n = parse_IString_Some [OF assms(1)] parse_IString_Some [OF assms(2)]
  have c: "compare (IString s1) (IString s2) = Inr (compareSV v1 v2)"
    by (simp add: compare_def n)
  have rel: "prerelease v1 = [] \<Longrightarrow> prerelease v2 = [] \<Longrightarrow> compareSV v1 v2 \<noteq> 0 \<Longrightarrow>
      major v1 = major v2 \<Longrightarrow> minor v1 = minor v2 \<Longrightarrow> patch v1 \<noteq> patch v2"
    using compareMain_eq_0 [of v1 v2] by (simp add: compareSV_release)
  have d: "diff (IString s1) (IString s2) =
     Inr (if compareSV v1 v2 = 0 then None
          else if prerelease v1 \<noteq> [] \<or> prerelease v2 \<noteq> [] then
            Some (if major v1 \<noteq> major v2 then ''premajor''
                  else if minor v1 \<noteq> minor v2 then ''preminor''
                  else if patch v1 \<noteq> patch v2 then ''prepatch''
                  else ''prerelease'')
          else
            Some (if major v1 \<noteq> major v2 then ''major''
                  else if minor v1 \<noteq> minor v2 then ''minor''
                  else ''patch''))"
    using rel by (auto simp: diff_def eq_def c assms Let_def)
  from c d show ?thesis by blast
qed

text \<open>
  C9, as stated, fails: two versions that differ in their prerelease only are not equal
  under \<^verbatim>\<open>compare\<close> and differ in none of major, minor, patch, and \<^verbatim>\<open>diff\<close> returns
  \<^verbatim>\<open>"prerelease"\<close>, not \<^verbatim>\<open>null\<close>.
\<close>

theorem diff_prerelease_only_counterexample:
  "map_option major (parse (IString ''1.0.0-alpha'')) = map_option major (parse (IString ''1.0.0-beta'')) \<and>
   map_option minor (parse (IString ''1.0.0-alpha'')) = map_option minor (parse (IString ''1.0.0-beta'')) \<and>
   map_option patch (parse (IString ''1.0.0-alpha'')) = map_option patch (parse (IString ''1.0.0-beta'')) \<and>
   compare (IString ''1.0.0-alpha'') (IString ''1.0.0-beta'') = Inr (- 1) \<and>
   diff (IString ''1.0.0-alpha'') (IString ''1.0.0-beta'') = Inr (Some ''prerelease'')"
proof -
  have a: "map_option major (parse (IString ''1.0.0-alpha'')) =
           map_option major (parse (IString ''1.0.0-beta''))"
    by code_simp
  have b: "map_option minor (parse (IString ''1.0.0-alpha'')) =
           map_option minor (parse (IString ''1.0.0-beta''))"
    by code_simp
  have c: "map_option patch (parse (IString ''1.0.0-alpha'')) =
           map_option patch (parse (IString ''1.0.0-beta''))"
    by code_simp
  have d: "compare (IString ''1.0.0-alpha'') (IString ''1.0.0-beta'') = Inr (- 1)"
    by code_simp
  have e: "diff (IString ''1.0.0-alpha'') (IString ''1.0.0-beta'') = Inr (Some ''prerelease'')"
    by code_simp
  from a b c d e show ?thesis by blast
qed

theorem diff_of_parsed_versions_witness:
  "parse (IString ''1.0.0-alpha'') =
     Some \<lparr>raw = ''1.0.0-alpha'', major = 1, minor = 0, patch = 0, version = ''1.0.0-alpha'',
           build = [], prerelease = [Str ''alpha'']\<rparr> \<and>
   parse (IString ''1.1.0'') =
     Some \<lparr>raw = ''1.1.0'', major = 1, minor = 1, patch = 0, version = ''1.1.0'',
           build = [], prerelease = []\<rparr> \<and>
   diff (IString ''1.0.0-alpha'') (IString ''1.1.0'') = Inr (Some ''preminor'')"
proof -
  let ?A = "\<lparr>raw = ''1.0.0-alpha'', major = 1, minor = 0, patch = 0, version = ''1.0.0-alpha'',
           build = [], prerelease = [Str ''alpha'']\<rparr>"
  let ?B = "\<lparr>raw = ''1.1.0'', major = 1, minor = 1, patch = 0, version = ''1.1.0'',
           build = [], prerelease = []\<rparr>"
  have a: "parse (IString ''1.0.0-alpha'') = Some ?A"
    by code_simp
  have b: "parse (IString ''1.1.0'') = Some ?B"
    by code_simp
  have c: "compareSV ?A ?B = - 1"
    by code_simp
  have "diff (IString ''1.0.0-alpha'') (IString ''1.1.0'') =
     Inr (if compareSV ?A ?B = 0 then None
          else if prerelease ?A \<noteq> [] \<or> prerelease ?B \<noteq> [] then
            Some (if major ?A \<noteq> major ?B then ''premajor''
                  else if minor ?A \<noteq> minor ?B then ''preminor''
                  else if patch ?A \<noteq> patch ?B then ''prepatch''
                  else ''prerelease'')
          else
            Some (if major ?A \<noteq> major ?B then ''major''
                  else if minor ?A \<noteq> minor ?B then ''minor''
                  else ''patch''))"
    using diff_of_parsed_versions [OF a b] by (rule conjunct2)
  then have "diff (IString ''1.0.0-alpha'') (IString ''1.1.0'') = Inr (Some ''preminor'')"
    unfolding c by simp
  with a b show ?thesis by blast
qed

subsection \<open>Doubles above the safe range\<close>




subsection \<open>Identifiers, split and join\<close>







lemma isNid_dec: "isNid (dec n)"
  using hd_dec [of n] by (auto simp: isNid_def dec_digits dec_eq_0)









subsection \<open>What the pattern of a version matched\<close>






lemma takeWhile_dropWhile_append: "takeWhile P xs @ dropWhile P xs = xs"
  by simp


lemma matchBuild_Some: "matchBuild s = Some (b, r) \<Longrightarrow> length r \<le> length s"
proof (cases s)
  case Nil
  assume "matchBuild s = Some (b, r)"
  with Nil show ?thesis by (simp add: matchBuild_def)
next
  case (Cons c t)
  assume a: "matchBuild s = Some (b, r)"
  have "length (dropWhile isIdDot t) \<le> length t" by (rule length_dropWhile_le)
  with a Cons show ?thesis
    by (auto simp: matchBuild_def Let_def split: if_splits)
qed


subsection \<open>The constructor establishes the invariant\<close>




lemma formatStr_cong:
  "major a = major b \<Longrightarrow> minor a = minor b \<Longrightarrow> patch a = patch b \<Longrightarrow>
   prerelease a = prerelease b \<Longrightarrow> formatStr a = formatStr b"
  by (simp add: formatStr_def)






lemma isPrereleaseId_chars: "isPrereleaseId x \<Longrightarrow> list_all isIdChar x"
  by (simp add: isPrereleaseId_def)



subsection \<open>Reading an instance again\<close>







subsection \<open>Comparators and ranges\<close>

lemma compareSV_fields:
  "major a = major a' \<Longrightarrow> minor a = minor a' \<Longrightarrow> patch a = patch a' \<Longrightarrow>
   prerelease a = prerelease a' \<Longrightarrow> major b = major b' \<Longrightarrow> minor b = minor b' \<Longrightarrow>
   patch b = patch b' \<Longrightarrow> prerelease b = prerelease b' \<Longrightarrow>
   compareSV a b = compareSV a' b'"
  by (simp add: compareSV_def compareMain_def comparePre_def)














subsection \<open>Range.test\<close>




subsection \<open>The caret rewrite\<close>

text \<open>
  C4. For version fields \<open>M\<close>, \<open>m\<close>, \<open>p\<close> (at most \<^verbatim>\<open>MAX_SAFE_INTEGER\<close>) and a prerelease
  text \<open>pr\<close>, \<^verbatim>\<open>replaceCaret\<close> turns \<^verbatim>\<open>^M.m.p\<close> and \<^verbatim>\<open>^M.m.p-pr\<close> into the lower bound
  \<^verbatim>\<open>>=M.m.p[-pr]\<close> and the upper bound \<^verbatim>\<open><NEXT\<close>, where \<open>NEXT\<close> (\<open>specCaretNext\<close>) increments
  the first field from the left that is not zero (the patch when major and minor are
  both zero) and zeroes the fields after it; \<^verbatim>\<open>x\<close> or a missing component widens the
  bound. The examples of the specification evaluate as it says.
\<close>

theorem caret_rewrite:
  assumes "M \<le> MAX_SAFE_INTEGER" and "m \<le> MAX_SAFE_INTEGER" and "p \<le> MAX_SAFE_INTEGER"
    and "list_all isIdDot pr" and "list_all isPrereleaseId (splitOn CHR ''.'' pr)"
  shows
  "replaceCaret (''^'' @ dec M @ ''.'' @ dec m @ ''.'' @ dec p) =
     ''>='' @ dec M @ ''.'' @ dec m @ ''.'' @ dec p @ '' <'' @ specCaretNext M m p \<and>
   replaceCaret (''^'' @ dec M @ ''.'' @ dec m @ ''.'' @ dec p @ ''-'' @ pr) =
     ''>='' @ dec M @ ''.'' @ dec m @ ''.'' @ dec p @ ''-'' @ pr @ '' <'' @ specCaretNext M m p \<and>
   replaceCaret (''^'' @ dec M @ ''.'' @ dec m @ ''.x'') =
     ''>='' @ dec M @ ''.'' @ dec m @ ''.0 <'' @
       (if M = 0 then ''0.'' @ dec (m + 1) @ ''.0'' else dec (M + 1) @ ''.0.0'') \<and>
   replaceCaret (''^'' @ dec M @ ''.x'') = ''>='' @ dec M @ ''.0.0 <'' @ dec (M + 1) @ ''.0.0'' \<and>
   replaceCaret (''^'' @ dec M) = ''>='' @ dec M @ ''.0.0 <'' @ dec (M + 1) @ ''.0.0'' \<and>
   replaceCaret ''^0.0.3'' = ''>=0.0.3 <0.0.4'' \<and>
   replaceCaret ''^0.2.3'' = ''>=0.2.3 <0.3.0'' \<and>
   replaceCaret ''^1.2.3'' = ''>=1.2.3 <2.0.0'' \<and>
   replaceCaret ''^1.x'' = ''>=1.0.0 <2.0.0'' \<and>
   map_sum id r_range (Range_new ''^1.2.0'' False) = Inr ''>=1.2.0 <2.0.0'' \<and>
   satisfies (IString ''1.2.3'') ''^1.2.0'' False = Inr True \<and>
   satisfies (IString ''2.0.0'') ''^1.2.0'' False = Inr False"
proof -
  have a: "replaceCaret ''^0.0.3'' = ''>=0.0.3 <0.0.4''" by code_simp
  have b: "replaceCaret ''^0.2.3'' = ''>=0.2.3 <0.3.0''" by code_simp
  have c: "replaceCaret ''^1.2.3'' = ''>=1.2.3 <2.0.0''" by code_simp
  have d: "replaceCaret ''^1.x'' = ''>=1.0.0 <2.0.0''" by code_simp
  have e: "map_sum id r_range (Range_new ''^1.2.0'' False) = Inr ''>=1.2.0 <2.0.0''" by code_simp
  have f: "satisfies (IString ''1.2.3'') ''^1.2.0'' False = Inr True" by code_simp
  have g: "satisfies (IString ''2.0.0'') ''^1.2.0'' False = Inr False" by code_simp
  note r = caret_rewrite_core [OF assms]
  show ?thesis
    by (intro conjI) (rule r [THEN conjunct1] r [THEN conjunct2, THEN conjunct1]
      r [THEN conjunct2, THEN conjunct2, THEN conjunct1]
      r [THEN conjunct2, THEN conjunct2, THEN conjunct2, THEN conjunct1]
      r [THEN conjunct2, THEN conjunct2, THEN conjunct2, THEN conjunct2] a b c d e f g)+
qed

lemma dec_small:
  "dec 0 = ''0''" "dec 1 = ''1''" "dec 2 = ''2''" "dec 3 = ''3''" "dec 4 = ''4''"
  "dec (Suc 0) = ''1''" "dec (Suc (Suc 0)) = ''2''"
  by (simp_all add: dec.simps digitChar_simps numeral_2_eq_2 [symmetric])

theorem caret_rewrite_witness:
  "(1::nat) \<le> MAX_SAFE_INTEGER \<and> (2::nat) \<le> MAX_SAFE_INTEGER \<and> (3::nat) \<le> MAX_SAFE_INTEGER \<and>
   list_all isIdDot ''alpha'' \<and> list_all isPrereleaseId (splitOn CHR ''.'' ''alpha'') \<and>
   replaceCaret (''^'' @ dec 1 @ ''.'' @ dec 2 @ ''.'' @ dec 3 @ ''-'' @ ''alpha'') =
     ''>=1.2.3-alpha <2.0.0''"
proof -
  have h: "(1::nat) \<le> MAX_SAFE_INTEGER" "(2::nat) \<le> MAX_SAFE_INTEGER"
    "(3::nat) \<le> MAX_SAFE_INTEGER"
    by (simp_all add: MAX_SAFE_INTEGER_def)
  have i: "list_all isIdDot ''alpha''" by code_simp
  have j: "list_all isPrereleaseId (splitOn CHR ''.'' ''alpha'')" by code_simp
  from caret_rewrite [OF h i j]
  have "replaceCaret (''^'' @ dec 1 @ ''.'' @ dec 2 @ ''.'' @ dec 3 @ ''-'' @ ''alpha'') =
     ''>='' @ dec 1 @ ''.'' @ dec 2 @ ''.'' @ dec 3 @ ''-'' @ ''alpha'' @ '' <'' @ specCaretNext 1 2 3"
    by (rule conjunct1 [OF conjunct2])
  then have "replaceCaret (''^'' @ dec 1 @ ''.'' @ dec 2 @ ''.'' @ dec 3 @ ''-'' @ ''alpha'') =
     ''>=1.2.3-alpha <2.0.0''"
    by (simp add: specCaretNext_def dec_small)
  with h i j show ?thesis by blast
qed

subsection \<open>The strict order is transitive\<close>



lemma compareIdentifiers_refl [simp]: "compareIdentifiers a a = 0"
  by (simp add: compareIdentifiers_def Let_def)

lemma not_numeric_Str: "\<not> numeric a \<Longrightarrow> \<exists>s. a = Str s"
  by (cases a) (auto simp: numeric_def)














lemma comparePreLoop_refl [simp]: "comparePreLoop xs xs = 0"
  by (induction xs) simp_all







subsection \<open>No call of the order reads a property of null\<close>













end
